theory Spec2Isabelle
  imports Complex_Main "HOL-Library.Sublist" "HOL-Library.Char_ord" "HOL-Library.List_Lexorder"
    "HOL-Library.Product_Lexorder" "HOL-Library.Log_Nat"
begin

section \<open>Python values shared by the services\<close>

text \<open>
  The services pass records around as Python dictionaries decoded from JSON. A key of such
  a dictionary is absent, present with the value \<open>None\<close>, or present with a value of the
  column's type. A finite Python float is given by the real number it denotes; the
  comparisons, the negation and the absolute value of the trigger predicate are exact on
  floats. The arithmetic of the price, rank and rating checks rounds, overflows to an
  infinity and can produce NaN: it is modelled on IEEE-754 doubles below.
\<close>

datatype 'a field = Absent | Null | Val 'a

datatype py_error =
    KeyError string
  | TypeError string
  | AttributeError string
  | RuntimeError string
  | ZeroDivisionError string
  | OverflowError string

text \<open>\<open>str(exc)\<close>: a \<open>KeyError\<close> prints its key in quotes, the others their message.\<close>

fun str_exc :: "py_error \<Rightarrow> string" where
  "str_exc (KeyError k) = [CHR 0x27] @ k @ [CHR 0x27]"
| "str_exc (TypeError m) = m"
| "str_exc (AttributeError m) = m"
| "str_exc (RuntimeError m) = m"
| "str_exc (ZeroDivisionError m) = m"
| "str_exc (OverflowError m) = m"

text \<open>\<open>d.get(key, default)\<close>: the default replaces an absent key only; a stored
  \<open>None\<close> is returned as it is.\<close>

fun dict_get :: "'a field \<Rightarrow> 'a \<Rightarrow> 'a option" where
  "dict_get Absent d = Some d"
| "dict_get Null d = None"
| "dict_get (Val v) d = Some v"

section \<open>Alert rule evaluation (alert_check_service.py)\<close>

record alert_rule =
  rule_id :: "string field"
  rule_type :: "string field"
  change_direction :: "string field"
  threshold :: "real field"
  threshold_type :: "string field"

text \<open>\<open>float(rule.get("threshold", 0))\<close>: \<open>float(None)\<close> raises \<open>TypeError\<close>.\<close>

definition float_threshold :: "alert_rule \<Rightarrow> py_error + real" where
  "float_threshold rule =
     (case dict_get (threshold rule) 0 of
        None \<Rightarrow> Inl (TypeError ''float() argument must be a string or a real number'')
      | Some t \<Rightarrow> Inr t)"

text \<open>
  \<open>AlertCheckService._should_trigger_alert\<close>. The whole body is inside
  \<open>try ... except Exception: return False\<close>. The two branches on \<open>threshold_type\<close> are
  written out as in the source. \<open>current_value\<close> and \<open>previous_value\<close> are parameters the
  body never reads.
\<close>

definition should_trigger_alert :: "alert_rule \<Rightarrow> real \<Rightarrow> real \<Rightarrow> real \<Rightarrow> bool" where
  "should_trigger_alert rule change_value current_value previous_value =
     (case float_threshold rule of
        Inl e \<Rightarrow> False
      | Inr thr \<Rightarrow>
          (let dir = dict_get (change_direction rule) ''any'';
               ttype = dict_get (threshold_type rule) ''percentage''
           in if ttype = Some ''percentage'' then
                (if dir = Some ''increase'' then change_value \<ge> thr
                 else if dir = Some ''decrease'' then change_value \<le> - thr
                 else if dir = Some ''any'' then \<bar>change_value\<bar> \<ge> thr
                 else False)
              else
                (if dir = Some ''increase'' then change_value \<ge> thr
                 else if dir = Some ''decrease'' then change_value \<le> - thr
                 else if dir = Some ''any'' then \<bar>change_value\<bar> \<ge> thr
                 else False)))"

subsection \<open>Python floats\<close>

text \<open>
  A Python float is an IEEE-754 double: a finite value \<open>m * 2^q\<close> with \<open>\<bar>m\<bar> < 2^53\<close> and
  \<open>- 1074 \<le> q \<le> 971\<close>, an infinity, or NaN. Positive and negative zero are not told apart:
  they compare equal and differ only when printed.
\<close>

datatype pyfloat = Finite real | PosInf | NegInf | NaN

definition pow2 :: "int \<Rightarrow> real" where
  "pow2 k = (if 0 \<le> k then 2 ^ nat k else 1 / 2 ^ nat (- k))"

text \<open>The binary exponent of a positive real: the \<open>e\<close> with \<open>2^e \<le> x < 2^(e+1)\<close>.\<close>

definition binary_exponent :: "real \<Rightarrow> int" where
  "binary_exponent x =
     (if 1 \<le> x then bitlen \<lfloor>x\<rfloor> - 1 else - bitlen (\<lceil>1 / x\<rceil> - 1))"

text \<open>The nearest integer, a tie to the even one.\<close>

definition round_half_even :: "real \<Rightarrow> int" where
  "round_half_even y =
     (let f = \<lfloor>y\<rfloor>; d = y - of_int f
      in if d < 1/2 then f else if d > 1/2 then f + 1 else if even f then f else f + 1)"

text \<open>
  The rounding every float operation ends with (round to nearest, ties to even): 53
  significant bits above the smallest normal exponent \<open>- 1022\<close>, the fixed quantum \<open>2^- 1074\<close>
  below it, an infinity when the rounded value reaches \<open>2^1024\<close>.
\<close>

definition round_double :: "real \<Rightarrow> pyfloat" where
  "round_double x =
     (if x = 0 then Finite 0
      else (let q = max (binary_exponent \<bar>x\<bar>) (- 1022) - 52;
                y = of_int (round_half_even (x / pow2 q)) * pow2 q
            in if pow2 1024 \<le> y then PosInf
               else if y \<le> - pow2 1024 then NegInf
               else Finite y))"

text \<open>
  The float the JSON decoder makes of a number with a fraction or an exponent
  (\<open>float(str)\<close>): the nearest double, an infinity beyond the range.
\<close>

definition float_of_number :: "real \<Rightarrow> pyfloat" where
  "float_of_number x = round_double x"

text \<open>\<open>x - y\<close> and \<open>x * y\<close> on floats. Neither raises.\<close>

fun float_sub :: "pyfloat \<Rightarrow> pyfloat \<Rightarrow> pyfloat" where
  "float_sub (Finite x) (Finite y) = round_double (x - y)"
| "float_sub (Finite x) PosInf = NegInf"
| "float_sub (Finite x) NegInf = PosInf"
| "float_sub PosInf (Finite y) = PosInf"
| "float_sub PosInf NegInf = PosInf"
| "float_sub NegInf (Finite y) = NegInf"
| "float_sub NegInf PosInf = NegInf"
| "float_sub _ _ = NaN"

fun float_sign :: "pyfloat \<Rightarrow> int" where
  "float_sign (Finite x) = (if 0 < x then 1 else if x < 0 then - 1 else 0)"
| "float_sign PosInf = 1"
| "float_sign NegInf = - 1"
| "float_sign NaN = 0"

fun float_mul :: "pyfloat \<Rightarrow> pyfloat \<Rightarrow> pyfloat" where
  "float_mul (Finite x) (Finite y) = round_double (x * y)"
| "float_mul NaN _ = NaN"
| "float_mul _ NaN = NaN"
| "float_mul x y =
     (if float_sign x * float_sign y = 0 then NaN
      else if 0 < float_sign x * float_sign y then PosInf else NegInf)"

text \<open>
  \<open>x / y\<close> on floats: \<open>ZeroDivisionError\<close> when the divisor is zero, whatever the dividend;
  otherwise no exception, an overflow gives an infinity.
\<close>

fun float_div :: "pyfloat \<Rightarrow> pyfloat \<Rightarrow> py_error + pyfloat" where
  "float_div x (Finite y) =
     (if y = 0 then Inl (ZeroDivisionError ''float division by zero'')
      else (case x of
              Finite a \<Rightarrow> Inr (round_double (a / y))
            | PosInf \<Rightarrow> Inr (if 0 < y then PosInf else NegInf)
            | NegInf \<Rightarrow> Inr (if 0 < y then NegInf else PosInf)
            | NaN \<Rightarrow> Inr NaN))"
| "float_div (Finite a) PosInf = Inr (Finite 0)"
| "float_div (Finite a) NegInf = Inr (Finite 0)"
| "float_div _ _ = Inr NaN"

text \<open>
  \<open>a / b\<close> on integers (true division): the correctly rounded quotient,
  \<open>ZeroDivisionError\<close> for a zero divisor, \<open>OverflowError\<close> when the quotient is beyond the
  range of a float.
\<close>

definition int_true_divide :: "int \<Rightarrow> int \<Rightarrow> py_error + pyfloat" where
  "int_true_divide a b =
     (if b = 0 then Inl (ZeroDivisionError ''division by zero'')
      else (case round_double (of_int a / of_int b) of
              Finite y \<Rightarrow> Inr (Finite y)
            | _ \<Rightarrow> Inl (OverflowError ''integer division result too large for a float'')))"

text \<open>
  \<open>round(x, 2)\<close>: the exact value of the float is rounded to the nearest hundredth, a tie to
  the even one, and the result is the double nearest to that decimal. Infinities and NaN
  round to themselves.
\<close>

fun py_round2 :: "pyfloat \<Rightarrow> pyfloat" where
  "py_round2 (Finite x) = round_double (of_int (round_half_even (x * 100)) / 100)"
| "py_round2 x = x"

text \<open>
  \<open>_should_trigger_alert(rule, change_value, current_value, previous_value)\<close> as the checks
  call it, with a change value that may be infinite or NaN. On a finite change value it is
  \<open>should_trigger_alert\<close>, whose last two parameters the body never reads (0 stands for
  them). Against a finite threshold \<open>inf >= t\<close>, \<open>-inf <= -t\<close>, \<open>abs(inf) >= t\<close> and
  \<open>abs(-inf) >= t\<close> hold and every comparison with NaN fails; both branches on
  \<open>threshold_type\<close> compare alike.
\<close>

definition should_trigger_alert_float :: "alert_rule \<Rightarrow> pyfloat \<Rightarrow> bool" where
  "should_trigger_alert_float rule change_value =
     (case change_value of
        Finite c \<Rightarrow> should_trigger_alert rule c 0 0
      | NaN \<Rightarrow> False
      | _ \<Rightarrow>
          (case float_threshold rule of
             Inl e \<Rightarrow> False
           | Inr thr \<Rightarrow>
               (let dir = dict_get (change_direction rule) ''any''
                in if dir = Some ''increase'' then change_value = PosInf
                   else if dir = Some ''decrease'' then change_value = NegInf
                   else if dir = Some ''any'' then True
                   else False)))"

subsection \<open>Snapshots, alert records and the alert table\<close>

text \<open>An entry of \<open>bsr_data\<close>; \<open>entry.get("rank")\<close> is \<open>None\<close> when the key is absent or null.\<close>

record bsr_entry =
  bsr_rank :: "int option"
  bsr_category :: string

text \<open>\<open>ProductSnapshotDict\<close>. Its \<open>__post_init__\<close> replaces a \<open>bsr_data\<close> of \<open>None\<close> by the
  empty list, so the field is a list. The webhook fills \<open>asin\<close> with \<open>item.get("asin")\<close>,
  which may be \<open>None\<close>. \<open>raw_data\<close> is kept for audit and never read. \<open>price\<close> and \<open>rating\<close>
  are the numbers of the stored row; the dataclass declares them \<open>float\<close>, and the checks
  read them through \<open>float_of_number\<close>. A rank is an integer.\<close>

record snapshot =
  snap_asin :: "string option"
  snapshot_date :: string
  price :: "real option"
  rating :: "real option"
  review_count :: "int option"
  bsr_data :: "bsr_entry list"

text \<open>The arguments of the three message format strings.\<close>

datatype alert_message =
    PriceMessage pyfloat pyfloat pyfloat
  | BsrMessage int int pyfloat
  | RatingMessage pyfloat pyfloat pyfloat

text \<open>\<open>previous_value\<close> and \<open>current_value\<close> of an alert are floats (prices, ratings) or
  integers (ranks).\<close>

datatype pynum = IntNum int | FloatNum pyfloat

record alert_data =
  alert_asin :: string
  alert_rule_id :: "string option"
  message :: alert_message
  previous_value :: pynum
  current_value :: pynum
  change_percent :: pyfloat
  alert_snapshot_date :: string

text \<open>
  The \<open>alerts\<close> table. \<open>create_alert_record\<close> inserts a row and answers whether the store
  returned it; every exception of the store is caught inside and answered \<open>False\<close>.
  \<open>accepts\<close> says which inserts the store carries out.
\<close>

record alert_db =
  alerts :: "alert_data list"
  accepts :: "alert_data \<Rightarrow> bool"

definition create_alert_record :: "alert_db \<Rightarrow> alert_data \<Rightarrow> bool \<times> alert_db" where
  "create_alert_record db a =
     (if accepts db a then (True, db\<lparr>alerts := alerts db @ [a]\<rparr>) else (False, db))"

text \<open>\<open>rule["id"]\<close> raises \<open>KeyError\<close> when the key is absent.\<close>

definition rule_subscript_id :: "alert_rule \<Rightarrow> py_error + string option" where
  "rule_subscript_id rule =
     (case rule_id rule of
        Absent \<Rightarrow> Inl (KeyError ''id'')
      | Null \<Rightarrow> Inr None
      | Val i \<Rightarrow> Inr (Some i))"

text \<open>
  The loop shared by the three checks: \<open>for rule in rules: if should_trigger: build the
  record; if create_alert_record(record): append\<close>. \<open>mk\<close> builds the record from the
  rule's id. An exception leaves the loop with the rows inserted so far in the table.
\<close>

fun trigger_loop ::
  "(string option \<Rightarrow> alert_data) \<Rightarrow> pyfloat \<Rightarrow> alert_rule list \<Rightarrow>
   alert_data list \<Rightarrow> alert_db \<Rightarrow> (py_error + alert_data list) \<times> alert_db" where
  "trigger_loop mk cv [] acc db = (Inr acc, db)"
| "trigger_loop mk cv (rule # rules) acc db =
     (if should_trigger_alert_float rule cv then
        (case rule_subscript_id rule of
           Inl e \<Rightarrow> (Inl e, db)
         | Inr rid \<Rightarrow>
             (case create_alert_record db (mk rid) of
                (ok, db') \<Rightarrow>
                  trigger_loop mk cv rules (if ok then acc @ [mk rid] else acc) db'))
      else trigger_loop mk cv rules acc db)"

definition price_alert_data ::
  "string \<Rightarrow> snapshot \<Rightarrow> pyfloat \<Rightarrow> pyfloat \<Rightarrow> pyfloat \<Rightarrow> string option \<Rightarrow> alert_data" where
  "price_alert_data a latest previous_price current_price cp rid =
     \<lparr>alert_asin = a, alert_rule_id = rid,
      message = PriceMessage previous_price current_price cp,
      previous_value = FloatNum previous_price, current_value = FloatNum current_price,
      change_percent = py_round2 cp, alert_snapshot_date = snapshot_date latest\<rparr>"

text \<open>\<open>((current_price - previous_price) / previous_price) * 100\<close>, in float arithmetic.\<close>

definition price_change_percent :: "pyfloat \<Rightarrow> pyfloat \<Rightarrow> py_error + pyfloat" where
  "price_change_percent current_price previous_price =
     (case float_div (float_sub current_price previous_price) previous_price of
        Inl e \<Rightarrow> Inl e
      | Inr ratio \<Rightarrow> Inr (float_mul ratio (Finite 100)))"

definition check_price_alerts ::
  "string \<Rightarrow> snapshot \<Rightarrow> snapshot \<Rightarrow> alert_rule list \<Rightarrow> alert_db \<Rightarrow>
   (py_error + alert_data list) \<times> alert_db" where
  "check_price_alerts a latest previous rules db =
     (let price_rules = filter (\<lambda>rule. rule_type rule = Val ''price_change'') rules
      in if price_rules = [] then (Inr [], db)
         else (case map_option float_of_number (price latest) of
                 None \<Rightarrow> (Inr [], db)
               | Some current_price \<Rightarrow>
                   (case map_option float_of_number (price previous) of
                      None \<Rightarrow> (Inr [], db)
                    | Some previous_price \<Rightarrow>
                        if previous_price = Finite 0 then (Inr [], db)
                        else (case price_change_percent current_price previous_price of
                                Inl e \<Rightarrow> (Inl e, db)
                              | Inr cp \<Rightarrow>
                                  trigger_loop
                                    (price_alert_data a latest previous_price current_price cp)
                                    cp price_rules [] db))))"

definition bsr_alert_data ::
  "string \<Rightarrow> snapshot \<Rightarrow> int \<Rightarrow> int \<Rightarrow> pyfloat \<Rightarrow> string option \<Rightarrow> alert_data" where
  "bsr_alert_data a latest previous_rank current_rank cp rid =
     \<lparr>alert_asin = a, alert_rule_id = rid,
      message = BsrMessage previous_rank current_rank cp,
      previous_value = IntNum previous_rank, current_value = IntNum current_rank,
      change_percent = py_round2 cp, alert_snapshot_date = snapshot_date latest\<rparr>"

text \<open>\<open>((previous_rank - current_rank) / previous_rank) * 100\<close>: an exact integer
  difference, a true division of integers, and a float product.\<close>

definition bsr_change_percent :: "int \<Rightarrow> int \<Rightarrow> py_error + pyfloat" where
  "bsr_change_percent current_rank previous_rank =
     (case int_true_divide (previous_rank - current_rank) previous_rank of
        Inl e \<Rightarrow> Inl e
      | Inr ratio \<Rightarrow> Inr (float_mul ratio (Finite 100)))"

definition check_bsr_alerts ::
  "string \<Rightarrow> snapshot \<Rightarrow> snapshot \<Rightarrow> alert_rule list \<Rightarrow> alert_db \<Rightarrow>
   (py_error + alert_data list) \<times> alert_db" where
  "check_bsr_alerts a latest previous rules db =
     (let bsr_rules = filter (\<lambda>rule. rule_type rule = Val ''bsr_change'') rules
      in if bsr_rules = [] then (Inr [], db)
         else (case bsr_data latest of
                 [] \<Rightarrow> (Inr [], db)
               | current_main_bsr # _ \<Rightarrow>
                   (case bsr_data previous of
                      [] \<Rightarrow> (Inr [], db)
                    | previous_main_bsr # _ \<Rightarrow>
                        (case bsr_rank current_main_bsr of
                           None \<Rightarrow> (Inr [], db)
                         | Some current_rank \<Rightarrow>
                             (case bsr_rank previous_main_bsr of
                                None \<Rightarrow> (Inr [], db)
                              | Some previous_rank \<Rightarrow>
                                  if previous_rank = 0 then (Inr [], db)
                                  else (case bsr_change_percent current_rank previous_rank of
                                          Inl e \<Rightarrow> (Inl e, db)
                                        | Inr cp \<Rightarrow>
                                            trigger_loop
                                              (bsr_alert_data a latest previous_rank
                                                 current_rank cp)
                                              cp bsr_rules [] db))))))"

definition rating_alert_data ::
  "string \<Rightarrow> snapshot \<Rightarrow> pyfloat \<Rightarrow> pyfloat \<Rightarrow> pyfloat \<Rightarrow> string option \<Rightarrow> alert_data" where
  "rating_alert_data a latest previous_rating current_rating change_amount rid =
     \<lparr>alert_asin = a, alert_rule_id = rid,
      message = RatingMessage previous_rating current_rating change_amount,
      previous_value = FloatNum previous_rating, current_value = FloatNum current_rating,
      change_percent = py_round2 change_amount, alert_snapshot_date = snapshot_date latest\<rparr>"

definition check_rating_alerts ::
  "string \<Rightarrow> snapshot \<Rightarrow> snapshot \<Rightarrow> alert_rule list \<Rightarrow> alert_db \<Rightarrow>
   (py_error + alert_data list) \<times> alert_db" where
  "check_rating_alerts a latest previous rules db =
     (let rating_rules = filter (\<lambda>rule. rule_type rule = Val ''rating_change'') rules
      in if rating_rules = [] then (Inr [], db)
         else (case map_option float_of_number (rating latest) of
                 None \<Rightarrow> (Inr [], db)
               | Some current_rating \<Rightarrow>
                   (case map_option float_of_number (rating previous) of
                      None \<Rightarrow> (Inr [], db)
                    | Some previous_rating \<Rightarrow>
                        (let change_amount = float_sub current_rating previous_rating
                         in trigger_loop
                              (rating_alert_data a latest previous_rating current_rating
                                 change_amount)
                              change_amount rating_rules [] db))))"

subsection \<open>One identifier, and a batch of identifiers\<close>

text \<open>
  What \<open>check_alerts_for_asin\<close> reads from its collaborators: the two snapshot queries
  (each catches its own exceptions and answers \<open>None\<close>) and the cached active rules
  (\<open>AlertCacheService.get_active_rules\<close>, which also catches everything it calls).
\<close>

record alert_env =
  get_latest_snapshot :: "string \<Rightarrow> snapshot option"
  get_previous_snapshot :: "string \<Rightarrow> string \<Rightarrow> snapshot option"
  get_active_rules :: "alert_rule list"

text \<open>The body of the \<open>try\<close> of \<open>check_alerts_for_asin\<close>: price, then BSR, then rating.\<close>

definition check_alerts_for_asin_body ::
  "alert_env \<Rightarrow> string \<Rightarrow> alert_db \<Rightarrow> (py_error + alert_data list) \<times> alert_db" where
  "check_alerts_for_asin_body env a db =
     (case get_latest_snapshot env a of
        None \<Rightarrow> (Inr [], db)
      | Some latest \<Rightarrow>
          (case get_previous_snapshot env a (snapshot_date latest) of
             None \<Rightarrow> (Inr [], db)
           | Some previous \<Rightarrow>
               (let rules = get_active_rules env
                in if rules = [] then (Inr [], db)
                   else (case check_price_alerts a latest previous rules db of
                           (Inl e, db1) \<Rightarrow> (Inl e, db1)
                         | (Inr price_alerts, db1) \<Rightarrow>
                             (case check_bsr_alerts a latest previous rules db1 of
                                (Inl e, db2) \<Rightarrow> (Inl e, db2)
                              | (Inr bsr_alerts, db2) \<Rightarrow>
                                  (case check_rating_alerts a latest previous rules db2 of
                                     (Inl e, db3) \<Rightarrow> (Inl e, db3)
                                   | (Inr rating_alerts, db3) \<Rightarrow>
                                       (Inr (price_alerts @ bsr_alerts @ rating_alerts),
                                        db3)))))))"

text \<open>\<open>check_alerts_for_asin\<close>: \<open>except Exception: log; return []\<close>.\<close>

definition check_alerts_for_asin ::
  "alert_env \<Rightarrow> string \<Rightarrow> alert_db \<Rightarrow> alert_data list \<times> alert_db" where
  "check_alerts_for_asin env a db =
     (case check_alerts_for_asin_body env a db of
        (Inl e, db') \<Rightarrow> ([], db')
      | (Inr triggered_alerts, db') \<Rightarrow> (triggered_alerts, db'))"

text \<open>\<open>check_alerts_for_asins\<close>: \<open>for asin in asins: results[asin] = alerts\<close>.\<close>

fun check_alerts_loop ::
  "alert_env \<Rightarrow> string list \<Rightarrow> (string \<rightharpoonup> alert_data list) \<Rightarrow> alert_db \<Rightarrow>
   (string \<rightharpoonup> alert_data list) \<times> alert_db" where
  "check_alerts_loop env [] results db = (results, db)"
| "check_alerts_loop env (a # asins) results db =
     (case check_alerts_for_asin env a db of
        (found, db') \<Rightarrow> check_alerts_loop env asins (results(a \<mapsto> found)) db')"

definition check_alerts_for_asins ::
  "alert_env \<Rightarrow> string list \<Rightarrow> alert_db \<Rightarrow> (string \<rightharpoonup> alert_data list) \<times> alert_db" where
  "check_alerts_for_asins env asins db = check_alerts_loop env asins Map.empty db"

text \<open>The id recorded for a rule whose \<open>id\<close> key is present.\<close>

definition rule_id_of :: "alert_rule \<Rightarrow> string option" where
  "rule_id_of r = (case rule_id r of Val i \<Rightarrow> Some i | _ \<Rightarrow> None)"

section \<open>Identifier status store (asin_status_queries.py)\<close>

text \<open>
  A row of the \<open>asin_status\<close> table (\<open>ASINStatus\<close> in model_types.py). \<open>task_timestamp\<close>
  is nullable. A timestamp is a naive \<open>datetime\<close>, counted in microseconds; the store
  compares the column with the ISO strings the code sends as timestamps.
\<close>

record asin_row =
  row_asin :: string
  status :: string
  task_timestamp :: "int option"
  retry_count :: int

type_synonym asin_table = "asin_row list"

text \<open>
  What the store does on each call: whether \<open>get_supabase_client()\<close> returns a client,
  and which requests raise. The fallback requests are made once per identifier.
\<close>

record store_env =
  client_available :: bool
  select_raises :: bool
  upsert_raises :: bool
  row_select_raises :: "string \<Rightarrow> bool"
  row_update_raises :: "string \<Rightarrow> bool"

definition us_per_day :: int where
  "us_per_day = 86400000000"

text \<open>\<open>(now - timedelta(days=1)).replace(hour=23, minute=59, second=59,
  microsecond=999999)\<close>: the last microsecond of the calendar day before \<open>now\<close>.\<close>

definition one_day_ago :: "int \<Rightarrow> int" where
  "one_day_ago now = ((now - us_per_day) div us_per_day) * us_per_day + (us_per_day - 1)"

definition five_minutes_ago :: "int \<Rightarrow> int" where
  "five_minutes_ago now = now - 300000000"

text \<open>The \<open>or_(...)\<close> filter of \<open>get_asins_to_scrape\<close>; a comparison with a null column is
  false.\<close>

definition scrape_filter :: "int \<Rightarrow> asin_row \<Rightarrow> bool" where
  "scrape_filter now r =
     (status r = ''pending''
      \<or> (status r = ''completed'' \<and>
          (case task_timestamp r of None \<Rightarrow> False | Some t \<Rightarrow> t \<le> one_day_ago now))
      \<or> (status r = ''running'' \<and>
          (case task_timestamp r of None \<Rightarrow> False | Some t \<Rightarrow> t < five_minutes_ago now))
      \<or> (status r = ''failed'' \<and> retry_count r < 3))"

text \<open>\<open>.order("task_timestamp", desc=False)\<close>: ascending, rows without a timestamp last
  (the store's default for an ascending order).\<close>

definition order_key :: "asin_row \<Rightarrow> bool \<times> int" where
  "order_key r = (case task_timestamp r of None \<Rightarrow> (True, 0) | Some t \<Rightarrow> (False, t))"

definition rows_to_scrape :: "asin_table \<Rightarrow> int \<Rightarrow> nat \<Rightarrow> asin_row list" where
  "rows_to_scrape tbl now limit = take limit (sort_key order_key (filter (scrape_filter now) tbl))"

text \<open>\<open>get_asins_to_scrape\<close>: no client, or an exception of the query, gives the empty list.\<close>

definition get_asins_to_scrape :: "store_env \<Rightarrow> asin_table \<Rightarrow> int \<Rightarrow> nat \<Rightarrow> string list" where
  "get_asins_to_scrape env tbl now limit =
     (if \<not> client_available env then []
      else if select_raises env then []
      else map row_asin (rows_to_scrape tbl now limit))"

text \<open>The eligibility predicate in the specification's words, with \<open>now - 1 day\<close> as the
  bound for completed identifiers.\<close>

definition spec_eligible :: "int \<Rightarrow> asin_row \<Rightarrow> bool" where
  "spec_eligible now r =
     (status r = ''pending''
      \<or> (status r = ''completed'' \<and>
          (case task_timestamp r of None \<Rightarrow> False | Some t \<Rightarrow> t \<le> now - us_per_day))
      \<or> (status r = ''running'' \<and>
          (case task_timestamp r of None \<Rightarrow> False | Some t \<Rightarrow> t < now - 300000000))
      \<or> (status r = ''failed'' \<and> retry_count r < 3))"

subsection \<open>Batch status transition\<close>

text \<open>
  The payload of one row update: \<open>status\<close> always, \<open>task_timestamp\<close> and \<open>retry_count\<close>
  only when the code puts the key in the dictionary (\<open>None\<close>: key not in the payload).
\<close>

record update_data =
  upd_status :: string
  upd_task_timestamp :: "int option"
  upd_retry_count :: "int option"

text \<open>
  \<open>asin_update_data\<close>, as both the bulk and the one-by-one path build it:
  \<open>task_timestamp\<close> when \<open>status == "running" and task_timestamp\<close>, \<open>retry_count\<close> as the
  stored count plus one when \<open>status == "failed"\<close>.
\<close>

definition make_update :: "string \<Rightarrow> int option \<Rightarrow> int \<Rightarrow> update_data" where
  "make_update st ts current_retry_count =
     \<lparr>upd_status = st,
      upd_task_timestamp = (if st = ''running'' then ts else None),
      upd_retry_count = (if st = ''failed'' then Some (current_retry_count + 1) else None)\<rparr>"

text \<open>The store writes the columns of the payload and leaves the others.\<close>

definition apply_update :: "update_data \<Rightarrow> asin_row \<Rightarrow> asin_row" where
  "apply_update u r =
     r\<lparr>status := upd_status u,
       task_timestamp := (case upd_task_timestamp u of None \<Rightarrow> task_timestamp r
                          | Some t \<Rightarrow> Some t),
       retry_count := (case upd_retry_count u of None \<Rightarrow> retry_count r | Some c \<Rightarrow> c)\<rparr>"

text \<open>\<open>.select(...).in_("asin", asins)\<close> and \<open>.select(...).eq("asin", asin)\<close>.\<close>

definition select_in :: "asin_table \<Rightarrow> string list \<Rightarrow> asin_row list" where
  "select_in tbl asins = filter (\<lambda>r. row_asin r \<in> set asins) tbl"

definition select_eq :: "asin_table \<Rightarrow> string \<Rightarrow> asin_row list" where
  "select_eq tbl a = filter (\<lambda>r. row_asin r = a) tbl"

text \<open>\<open>.update(payload).eq("asin", asin)\<close>: the rows written, and the new table.\<close>

definition update_eq :: "asin_table \<Rightarrow> string \<Rightarrow> update_data \<Rightarrow> asin_row list \<times> asin_table" where
  "update_eq tbl a u =
     (map (apply_update u) (select_eq tbl a),
      map (\<lambda>r. if row_asin r = a then apply_update u r else r) tbl)"

text \<open>
  \<open>.upsert(rows, on_conflict="asin")\<close>: a row whose identifier is in the table is updated,
  any other is inserted, with the column defaults for what the payload leaves out. The rows
  of one request are applied in order.
\<close>

definition upsert_row :: "asin_table \<Rightarrow> string \<times> update_data \<Rightarrow> asin_table" where
  "upsert_row tbl au =
     (case au of (a, u) \<Rightarrow>
        if select_eq tbl a = []
        then tbl @ [\<lparr>row_asin = a, status = upd_status u,
                     task_timestamp = upd_task_timestamp u,
                     retry_count = (case upd_retry_count u of None \<Rightarrow> 0 | Some c \<Rightarrow> c)\<rparr>]
        else snd (update_eq tbl a u))"

definition upsert_all :: "asin_table \<Rightarrow> (string \<times> update_data) list \<Rightarrow> asin_table" where
  "upsert_all tbl rows = foldl upsert_row tbl rows"

text \<open>\<open>existing_asins = {item["asin"]: item for item in existing_result.data}\<close>: of two
  rows with one identifier the later one stays.\<close>

definition existing_asins :: "asin_row list \<Rightarrow> (string \<rightharpoonup> asin_row)" where
  "existing_asins rows = map_of (map (\<lambda>r. (row_asin r, r)) (rev rows))"

text \<open>The first loop of \<open>bulk_update_asin_status\<close>, which prepares the bulk request.\<close>

fun prepare_bulk ::
  "(string \<rightharpoonup> asin_row) \<Rightarrow> string \<Rightarrow> int option \<Rightarrow> string list \<Rightarrow>
   (string \<times> update_data) list \<Rightarrow> string list \<Rightarrow> string list \<Rightarrow>
   (string \<times> update_data) list \<times> string list \<times> string list" where
  "prepare_bulk ex st ts [] bulk_update_data successful failed =
     (bulk_update_data, successful, failed)"
| "prepare_bulk ex st ts (a # asins) bulk_update_data successful failed =
     (case ex a of
        None \<Rightarrow> prepare_bulk ex st ts asins bulk_update_data successful (failed @ [a])
      | Some row \<Rightarrow>
          prepare_bulk ex st ts asins
            (bulk_update_data @ [(a, make_update st ts (retry_count row))])
            (successful @ [a]) failed)"

text \<open>
  The inner \<open>try\<close>: the select, the loop, the upsert. The first component says whether an
  exception left it; the two lists are then as the loop had them, and the table is
  unchanged.
\<close>

definition bulk_path ::
  "store_env \<Rightarrow> asin_table \<Rightarrow> string list \<Rightarrow> string \<Rightarrow> int option \<Rightarrow>
   bool \<times> string list \<times> string list \<times> asin_table" where
  "bulk_path env tbl asins st ts =
     (if select_raises env then (True, [], [], tbl)
      else (case prepare_bulk (existing_asins (select_in tbl asins)) st ts asins [] [] [] of
              (bulk_update_data, successful, failed) \<Rightarrow>
                if bulk_update_data \<noteq> [] then
                  (if upsert_raises env then (True, successful, failed, tbl)
                   else (False, successful, failed, upsert_all tbl bulk_update_data))
                else (False, successful, failed, tbl)))"

text \<open>
  The handler of the inner \<open>try\<close>: one identifier at a time. \<open>remove1\<close> is
  \<open>if asin in successful_asins: successful_asins.remove(asin)\<close>.
\<close>

fun fallback_loop ::
  "store_env \<Rightarrow> string \<Rightarrow> int option \<Rightarrow> string list \<Rightarrow> string list \<Rightarrow> string list \<Rightarrow>
   asin_table \<Rightarrow> string list \<times> string list \<times> asin_table" where
  "fallback_loop env st ts [] successful failed tbl = (successful, failed, tbl)"
| "fallback_loop env st ts (a # asins) successful failed tbl =
     (if row_select_raises env a
      then fallback_loop env st ts asins (remove1 a successful) (failed @ [a]) tbl
      else (case select_eq tbl a of
              [] \<Rightarrow> fallback_loop env st ts asins successful (failed @ [a]) tbl
            | row # _ \<Rightarrow>
                if row_update_raises env a
                then fallback_loop env st ts asins (remove1 a successful) (failed @ [a]) tbl
                else (case update_eq tbl a (make_update st ts (retry_count row)) of
                        (updated, tbl') \<Rightarrow>
                          if updated \<noteq> []
                          then fallback_loop env st ts asins
                                 (if a \<in> set successful then successful else successful @ [a])
                                 failed tbl'
                          else fallback_loop env st ts asins (remove1 a successful)
                                 (failed @ [a]) tbl')))"

text \<open>The dictionary returned by \<open>bulk_update_asin_status\<close>; \<open>success_count\<close> is \<open>None\<close>
  where the returned dictionary has no such key.\<close>

record update_result =
  success :: bool
  successful_asins :: "string list"
  failed_asins :: "string list"
  success_count :: "nat option"

definition valid_statuses :: "string list" where
  "valid_statuses = [''pending'', ''running'', ''completed'', ''failed'']"

definition bulk_update_asin_status ::
  "store_env \<Rightarrow> asin_table \<Rightarrow> string list \<Rightarrow> string \<Rightarrow> int option \<Rightarrow>
   update_result \<times> asin_table" where
  "bulk_update_asin_status env tbl asins st ts =
     (if asins = [] then
        (\<lparr>success = True, successful_asins = [], failed_asins = [], success_count = None\<rparr>,
         tbl)
      else if st \<notin> set valid_statuses then
        (\<lparr>success = False, successful_asins = [], failed_asins = asins,
          success_count = None\<rparr>, tbl)
      else if \<not> client_available env then
        (\<lparr>success = False, successful_asins = [], failed_asins = asins,
          success_count = None\<rparr>, tbl)
      else
        (case (case bulk_path env tbl asins st ts of
                 (raised, successful, failed, tbl1) \<Rightarrow>
                   if raised then fallback_loop env st ts asins successful failed tbl1
                   else (successful, failed, tbl1)) of
           (successful, failed, tbl2) \<Rightarrow>
             (\<lparr>success = (length failed = 0), successful_asins = successful,
               failed_asins = failed, success_count = Some (length successful)\<rparr>, tbl2)))"

text \<open>What a transition to \<open>st\<close> writes in a row, and when the one-by-one path gets an
  identifier through (both requests answer and the row is there).\<close>

definition transition_row :: "string \<Rightarrow> int option \<Rightarrow> asin_row \<Rightarrow> asin_row" where
  "transition_row st ts r = apply_update (make_update st ts (retry_count r)) r"


section \<open>Webhook ingestion (webhook_service.py, products_queries.py, snapshots_queries.py)\<close>

text \<open>A parsed dataset item; \<open>item.get(key)\<close> is \<open>None\<close> for an absent key.\<close>

record dataset_item =
  item_asin :: "string option"
  item_title :: "string option"
  item_categories :: "string list"
  item_price :: "real option"
  item_rating :: "real option"
  item_review_count :: "int option"
  item_bsr :: "bsr_entry list"

record product =
  product_asin :: "string option"
  product_title :: "string option"
  product_categories :: "string list"

text \<open>Python truth of an optional string: \<open>None\<close> and the empty string are false.\<close>

definition truthy :: "string option \<Rightarrow> bool" where
  "truthy s = (case s of None \<Rightarrow> False | Some x \<Rightarrow> x \<noteq> [])"

text \<open>
  The collaborators of the webhook service: the collector (absent when its constructor
  failed) and its dataset fetch, the optional alert check service with what its queries
  answer, the date of today, the client and the requests of the store that raise.
\<close>

record webhook_env =
  collector_available :: bool
  get_parsed_dataset_items :: "string \<Rightarrow> py_error + dataset_item list"
  alert_check_service :: "alert_env option"
  current_date :: string
  store :: store_env
  products_upsert_raises :: bool
  snapshots_insert_raises :: bool

record world =
  status_table :: asin_table
  products :: "product list"
  snapshots :: "snapshot list"
  alert_table :: alert_db

text \<open>\<open>.upsert\<close> on the products table, keyed by \<open>asin\<close>.\<close>

definition upsert_product :: "product list \<Rightarrow> product \<Rightarrow> product list" where
  "upsert_product tbl p =
     (if product_asin p \<in> product_asin ` set tbl
      then map (\<lambda>q. if product_asin q = product_asin p then p else q) tbl
      else tbl @ [p])"

text \<open>\<open>bulk_update_products\<close>: items without an ASIN are skipped, any exception of the
  store gives \<open>False\<close>.\<close>

definition bulk_update_products ::
  "webhook_env \<Rightarrow> product list \<Rightarrow> product list \<Rightarrow> bool \<times> product list" where
  "bulk_update_products env tbl products_data =
     (if products_data = [] then (True, tbl)
      else if \<not> client_available (store env) then (False, tbl)
      else (let prepared_products = filter (\<lambda>p. truthy (product_asin p)) products_data
            in if prepared_products = [] then (True, tbl)
               else if products_upsert_raises env then (False, tbl)
               else (True, foldl upsert_product tbl prepared_products)))"

text \<open>\<open>bulk_create_snapshots\<close>: snapshots without an ASIN or a date are skipped, the rest
  inserted in one request.\<close>

definition bulk_create_snapshots ::
  "webhook_env \<Rightarrow> snapshot list \<Rightarrow> snapshot list \<Rightarrow> bool \<times> snapshot list" where
  "bulk_create_snapshots env tbl snapshots_data =
     (if snapshots_data = [] then (True, tbl)
      else if \<not> client_available (store env) then (False, tbl)
      else (let prepared_snapshots =
                  filter (\<lambda>s. truthy (snap_asin s) \<and> snapshot_date s \<noteq> []) snapshots_data
            in if prepared_snapshots = [] then (True, tbl)
               else if snapshots_insert_raises env then (False, tbl)
               else (True, tbl @ prepared_snapshots)))"

definition product_of_item :: "dataset_item \<Rightarrow> product" where
  "product_of_item item =
     \<lparr>product_asin = item_asin item, product_title = item_title item,
      product_categories = item_categories item\<rparr>"

definition snapshot_of_item :: "string \<Rightarrow> dataset_item \<Rightarrow> snapshot" where
  "snapshot_of_item today item =
     \<lparr>snap_asin = item_asin item, snapshot_date = today, price = item_price item,
      rating = item_rating item, review_count = item_review_count item,
      bsr_data = item_bsr item\<rparr>"

text \<open>\<open>[item.get("asin") for item in dataset_items if item.get("asin")]\<close>\<close>

definition batch_asins :: "dataset_item list \<Rightarrow> string list" where
  "batch_asins dataset_items = map the (filter truthy (map item_asin dataset_items))"

text \<open>The dictionary returned by \<open>_process_successful_webhook\<close>; \<open>None\<close> below stands for
  the empty dictionary, and \<open>alerts_triggered\<close> is \<open>None\<close> where the key is not set.\<close>

record webhook_result =
  products_updated :: nat
  snapshots_created :: nat
  total_processed :: nat
  asin_status_update :: update_result
  alerts_triggered :: "(string \<rightharpoonup> alert_data list) option"

text \<open>
  The log line after the status update reads \<open>status_update_result['success_count']\<close>
  when \<open>success\<close> is true; the dictionary returned for an empty list of identifiers has no
  such key, and the \<open>KeyError\<close> ends the ingestion in the outer handler.
\<close>

definition log_status_update :: "update_result \<Rightarrow> py_error + unit" where
  "log_status_update res =
     (if success res \<and> success_count res = None then Inl (KeyError ''success_count'')
      else Inr ())"

definition process_successful_webhook ::
  "webhook_env \<Rightarrow> string option \<Rightarrow> world \<Rightarrow> webhook_result option \<times> world" where
  "process_successful_webhook env dataset_id w =
     (if \<not> truthy dataset_id \<or> \<not> collector_available env then (None, w)
      else (case get_parsed_dataset_items env (the dataset_id) of
              Inl e \<Rightarrow> (None, w)
            | Inr dataset_items \<Rightarrow>
                if dataset_items = [] then (None, w)
                else
                 (let products_data = map product_of_item dataset_items;
                      snapshots_data = map (snapshot_of_item (current_date env)) dataset_items;
                      pr = bulk_update_products env (products w) products_data;
                      sr = bulk_create_snapshots env (snapshots w) snapshots_data;
                      products_success = fst pr;
                      snapshots_success = fst sr;
                      w1 = w\<lparr>products := snd pr, snapshots := snd sr\<rparr>
                  in if products_success \<and> snapshots_success then
                       (let successful_asins = batch_asins dataset_items;
                            ur = bulk_update_asin_status (store env) (status_table w1)
                                   successful_asins ''completed'' None;
                            status_update_result = fst ur;
                            w2 = w1\<lparr>status_table := snd ur\<rparr>
                        in (case log_status_update status_update_result of
                              Inl e \<Rightarrow> (None, w2)
                            | Inr _ \<Rightarrow>
                               (let ar = (case alert_check_service env of
                                            None \<Rightarrow> (Map.empty, alert_table w2)
                                          | Some svc \<Rightarrow>
                                              check_alerts_for_asins svc successful_asins
                                                (alert_table w2))
                                in (Some \<lparr>products_updated = length products_data,
                                          snapshots_created = length snapshots_data,
                                          total_processed = length dataset_items,
                                          asin_status_update = status_update_result,
                                          alerts_triggered = Some (fst ar)\<rparr>,
                                    w2\<lparr>alert_table := snd ar\<rparr>))))
                     else
                       (let all_asins = batch_asins dataset_items;
                            ur = bulk_update_asin_status (store env) (status_table w1)
                                   all_asins ''failed'' None;
                            status_update_result = fst ur;
                            w2 = w1\<lparr>status_table := snd ur\<rparr>
                        in (case log_status_update status_update_result of
                              Inl e \<Rightarrow> (None, w2)
                            | Inr _ \<Rightarrow>
                               (Some \<lparr>products_updated =
                                         (if products_success then length products_data else 0),
                                       snapshots_created =
                                         (if snapshots_success then length snapshots_data else 0),
                                       total_processed = length dataset_items,
                                       asin_status_update = status_update_result,
                                       alerts_triggered = None\<rparr>, w2))))))"

section \<open>Report parameters and their hash (report_queries.py)\<close>

text \<open>
  The values \<open>json.dumps\<close> is given. A Python dictionary keeps its keys in insertion
  order and has each key once, so an object is a list of pairs, in that order.
\<close>

datatype json =
    JNull
  | JBool bool
  | JInt int
  | JStr string
  | JList "json list"
  | JObj "(string \<times> json) list"

definition digit_char :: "nat \<Rightarrow> char" where
  "digit_char d = char_of (48 + d)"

fun show_nat :: "nat \<Rightarrow> string" where
  "show_nat n = (if n < 10 then [digit_char n] else show_nat (n div 10) @ [digit_char (n mod 10)])"









section \<open>Report jobs: store and submission (report_queries.py, report_service.py)\<close>

record report_job =
  job_id :: string
  job_type :: string
  job_parameters :: json
  parameters_hash :: string
  job_status :: string
  result_url :: "string option"
  error_message :: "string option"
  created_at :: int
  started_at :: "int option"
  completed_at :: "int option"

text \<open>The \<open>report_jobs\<close> and \<open>report_results\<close> tables and the tasks sent to the report
  queue.\<close>

record report_state =
  jobs :: "report_job list"
  report_results :: "(string \<times> string) list"
  report_queue :: "(string \<times> json) list"

















text \<open>
  \<open>update_report_job_status\<close>. \<open>raises\<close> is what the store does on this call. The update
  writes \<open>started_at\<close> for running, \<open>completed_at\<close> for completed and failed, and the two
  optional columns when the argument is given and not empty; it answers whether a row was
  updated.
\<close>

definition write_status ::
  "int \<Rightarrow> string \<Rightarrow> string option \<Rightarrow> string option \<Rightarrow> report_job \<Rightarrow> report_job" where
  "write_status now new_status url msg j =
     j\<lparr>job_status := new_status,
       started_at := (if new_status = ''running'' then Some now else started_at j),
       completed_at := (if new_status \<in> {''completed'', ''failed''} then Some now
                        else completed_at j),
       result_url := (if truthy url then url else result_url j),
       error_message := (if truthy msg then msg else error_message j)\<rparr>"

definition update_report_job_status ::
  "py_error option \<Rightarrow> int \<Rightarrow> report_state \<Rightarrow> string \<Rightarrow> string \<Rightarrow> string option \<Rightarrow>
   string option \<Rightarrow> (py_error + bool) \<times> report_state" where
  "update_report_job_status raises now st jid new_status url msg =
     (case raises of
        Some e \<Rightarrow> (Inl e, st)
      | None \<Rightarrow>
          (Inr (filter (\<lambda>j. job_id j = jid) (jobs st) \<noteq> []),
           st\<lparr>jobs := map (\<lambda>j. if job_id j = jid
                                then write_status now new_status url msg j else j)
                          (jobs st)\<rparr>))"

section \<open>Report generation task (report_tasks.py)\<close>

text \<open>
  The places where the task writes a job's status, and what the collaborators do in the
  attempt numbered by \<open>self.request.retries\<close>: whether the store raises at a place, what
  the analysis and the report generation answer (an exception, or whether there is a
  result, resp. the content), whether saving the result raises, and the time.
\<close>

datatype call_site = AtStart | AtCompleted | AtResultFailed | AtRetry | AtExhausted | AtOnFailure

record task_env =
  update_raises :: "nat \<Rightarrow> call_site \<Rightarrow> py_error option"
  analysis :: "nat \<Rightarrow> py_error + bool"
  generation :: "nat \<Rightarrow> py_error + string"
  save_raises :: "nat \<Rightarrow> py_error option"
  attempt_time :: "nat \<Rightarrow> int"
  celery_task_id :: string

definition max_retries :: nat where
  "max_retries = 3"

datatype exec_result = ExecSuccess | ExecFailure string

text \<open>
  \<open>_execute_report_generation\<close>: its whole body is inside \<open>try ... except Exception\<close>,
  which answers a failure carrying the exception's text. The messages are rendered in
  English.
\<close>

definition logic_failed :: "py_error \<Rightarrow> string" where
  "logic_failed e = ''Report generation logic failed: '' @ str_exc e"

definition execute_report_generation ::
  "task_env \<Rightarrow> nat \<Rightarrow> string \<Rightarrow> report_state \<Rightarrow> exec_result \<times> report_state" where
  "execute_report_generation env k jid st =
     (case analysis env k of
        Inl e \<Rightarrow> (ExecFailure (logic_failed e), st)
      | Inr analysis_result \<Rightarrow>
          if \<not> analysis_result
          then (ExecFailure ''Competitor analysis failed, no result returned'', st)
          else (case generation env k of
                  Inl e \<Rightarrow> (ExecFailure (logic_failed e), st)
                | Inr report_content \<Rightarrow>
                    if report_content = []
                    then (ExecFailure ''LLM report generation failed, no content returned'', st)
                    else (case save_raises env k of
                            Some e \<Rightarrow> (ExecFailure (logic_failed e), st)
                          | None \<Rightarrow>
                              (case update_report_job_status (update_raises env k AtCompleted)
                                      (attempt_time env k)
                                      (st\<lparr>report_results :=
                                            report_results st @ [(jid, report_content)]\<rparr>)
                                      jid ''completed'' None None of
                                 (Inl e, st2) \<Rightarrow> (ExecFailure (logic_failed e), st2)
                               | (Inr _, st2) \<Rightarrow> (ExecSuccess, st2)))))"

text \<open>\<open>parameters[key]\<close> raises \<open>KeyError\<close> for an absent key; the four keys are read in
  the order of the call.\<close>

definition subscript :: "(string \<times> json) list \<Rightarrow> string \<Rightarrow> py_error + json" where
  "subscript d k = (case map_of d k of None \<Rightarrow> Inl (KeyError k) | Some v \<Rightarrow> Inr v)"

definition read_parameters :: "(string \<times> json) list \<Rightarrow> py_error + unit" where
  "read_parameters params =
     (case subscript params ''main_asin'' of
        Inl e \<Rightarrow> Inl e
      | Inr _ \<Rightarrow>
          (case subscript params ''competitor_asins'' of
             Inl e \<Rightarrow> Inl e
           | Inr _ \<Rightarrow>
               (case subscript params ''window_size'' of
                  Inl e \<Rightarrow> Inl e
                | Inr _ \<Rightarrow>
                    (case subscript params ''report_type'' of
                       Inl e \<Rightarrow> Inl e
                     | Inr _ \<Rightarrow> Inr ()))))"

datatype task_result = TaskSuccess | TaskFailure string

text \<open>The \<open>try\<close> of \<open>generate_competitor_report\<close>: an exception that leaves it, or the
  dictionary it returns.\<close>

definition attempt_body ::
  "task_env \<Rightarrow> nat \<Rightarrow> string \<Rightarrow> (string \<times> json) list \<Rightarrow> report_state \<Rightarrow>
   (py_error + task_result) \<times> report_state" where
  "attempt_body env k jid params st =
     (case update_report_job_status (update_raises env k AtStart) (attempt_time env k) st jid
             ''running'' None None of
        (Inl e, st1) \<Rightarrow> (Inl e, st1)
      | (Inr _, st1) \<Rightarrow>
          (case read_parameters params of
             Inl e \<Rightarrow> (Inl e, st1)
           | Inr _ \<Rightarrow>
               (case execute_report_generation env k jid st1 of
                  (ExecSuccess, st2) \<Rightarrow> (Inr TaskSuccess, st2)
                | (ExecFailure err, st2) \<Rightarrow>
                    (case update_report_job_status (update_raises env k AtResultFailed)
                            (attempt_time env k) st2 jid ''failed'' None (Some err) of
                       (Inl e, st3) \<Rightarrow> (Inl e, st3)
                     | (Inr _, st3) \<Rightarrow> (Inr (TaskFailure err), st3)))))"

definition retry_message :: "nat \<Rightarrow> py_error \<Rightarrow> string" where
  "retry_message n exc = ''Task retrying (attempt '' @ show_nat n @ ''): '' @ str_exc exc"

definition exhausted_message :: "py_error \<Rightarrow> string" where
  "exhausted_message exc = ''Task retry limit reached: '' @ str_exc exc"

text \<open>
  \<open>self.get_retry_delay()\<close>: neither \<open>ReportTask\<close> nor the \<open>Task\<close> class it extends defines
  such a method (the sibling tasks of amazon_tasks.py pass \<open>countdown=60\<close>), so the attribute
  lookup raises \<open>AttributeError\<close>, whose text names the class of the task object and the
  attribute.
\<close>

definition no_retry_delay :: py_error where
  "no_retry_delay =
     AttributeError ([CHR 0x27] @ ''generate_competitor_report'' @ [CHR 0x27] @
                     '' object has no attribute '' @ [CHR 0x27] @ ''get_retry_delay'' @
                     [CHR 0x27])"

definition get_retry_delay :: "py_error + nat" where
  "get_retry_delay = Inl no_retry_delay"

text \<open>
  What an attempt ends with: the returned dictionary, the \<open>Retry\<close> that \<open>self.retry\<close>
  raises with the countdown, or another exception. The handler first writes the job, then
  evaluates \<open>self.get_retry_delay()\<close>, the argument of the call, then calls \<open>self.retry\<close>.
\<close>

datatype attempt_outcome =
    Returned task_result
  | RetryRequested py_error nat
  | Raised py_error

definition attempt ::
  "task_env \<Rightarrow> nat \<Rightarrow> string \<Rightarrow> (string \<times> json) list \<Rightarrow> report_state \<Rightarrow>
   attempt_outcome \<times> report_state" where
  "attempt env k jid params st =
     (case attempt_body env k jid params st of
        (Inr res, st1) \<Rightarrow> (Returned res, st1)
      | (Inl exc, st1) \<Rightarrow>
          if k < max_retries then
            (case update_report_job_status (update_raises env k AtRetry) (attempt_time env k)
                    st1 jid ''running'' None (Some (retry_message (k + 1) exc)) of
               (Inl e, st2) \<Rightarrow> (Raised e, st2)
             | (Inr _, st2) \<Rightarrow>
                 (case get_retry_delay of
                    Inl e \<Rightarrow> (Raised e, st2)
                  | Inr countdown \<Rightarrow> (RetryRequested exc countdown, st2)))
          else
            (case update_report_job_status (update_raises env k AtExhausted)
                    (attempt_time env k) st1 jid ''failed'' None
                    (Some (exhausted_message exc)) of
               (Inl e, st2) \<Rightarrow> (Raised e, st2)
             | (Inr _, st2) \<Rightarrow> (Returned (TaskFailure (str_exc exc)), st2)))"

text \<open>\<open>ReportTask.on_failure\<close>: it is given the id of the queue's task, and swallows the
  exceptions of the update.\<close>

definition on_failure :: "task_env \<Rightarrow> nat \<Rightarrow> report_state \<Rightarrow> py_error \<Rightarrow> report_state" where
  "on_failure env k st exc =
     snd (update_report_job_status (update_raises env k AtOnFailure) (attempt_time env k) st
            (celery_task_id env) ''failed'' None (Some (str_exc exc)))"

text \<open>
  The queue's worker: it runs the attempt, runs it again with the retry count plus one
  when the attempt asked for a retry, and calls \<open>on_failure\<close> when an exception left the
  task. \<open>self.retry\<close> raises \<open>Retry\<close> only while \<open>request.retries < max_retries\<close>; past
  that it raises the exception itself. The result carries the number of retries made.
\<close>

datatype run_outcome = Finished task_result | Failed py_error

function run_task ::
  "task_env \<Rightarrow> string \<Rightarrow> (string \<times> json) list \<Rightarrow> report_state \<Rightarrow> nat \<Rightarrow>
   (run_outcome \<times> nat) \<times> report_state" where
  "run_task env jid params st k =
     (case attempt env k jid params st of
        (Returned res, st1) \<Rightarrow> ((Finished res, k), st1)
      | (RetryRequested exc countdown, st1) \<Rightarrow>
          if k < max_retries then run_task env jid params st1 (Suc k)
          else ((Failed exc, k), on_failure env k st1 exc)
      | (Raised e, st1) \<Rightarrow> ((Failed e, k), on_failure env k st1 e))"
  by pat_completeness auto
termination
  by (relation "measure (\<lambda>(env, jid, params, st, k). max_retries - k)") auto

section \<open>Results: the trigger predicate\<close>

text \<open>
  Claim C1. For every alert rule with a numeric threshold and every change value, a rule
  with direction increase triggers iff the change is at least the threshold, a rule with
  direction decrease triggers iff the change is at most minus the threshold, and a rule
  with direction any triggers iff the absolute change is at least the threshold.
\<close>

theorem should_trigger_alert_decision:
  "threshold rule = Val t \<Longrightarrow>
     (change_direction rule = Val ''increase'' \<longrightarrow>
        should_trigger_alert rule cv cur prev = (cv \<ge> t)) \<and>
     (change_direction rule = Val ''decrease'' \<longrightarrow>
        should_trigger_alert rule cv cur prev = (cv \<le> - t)) \<and>
     (change_direction rule = Val ''any'' \<longrightarrow>
        should_trigger_alert rule cv cur prev = (\<bar>cv\<bar> \<ge> t))"
  by (simp add: should_trigger_alert_def float_threshold_def Let_def)

theorem should_trigger_alert_decision_witness:
  "should_trigger_alert
      \<lparr>rule_id = Val ''r1'', rule_type = Val ''price_change'',
       change_direction = Val ''increase'', threshold = Val 15,
       threshold_type = Val ''percentage''\<rparr> 20 120 100 = True
   \<and> should_trigger_alert
      \<lparr>rule_id = Val ''r2'', rule_type = Val ''price_change'',
       change_direction = Val ''decrease'', threshold = Val 15,
       threshold_type = Val ''percentage''\<rparr> (- 10) 90 100 = False
   \<and> should_trigger_alert
      \<lparr>rule_id = Val ''r3'', rule_type = Val ''rating_change'',
       change_direction = Val ''any'', threshold = Val (1/2),
       threshold_type = Val ''absolute''\<rparr> (- 1) 3 4 = True"
  using should_trigger_alert_decision
          [of "\<lparr>rule_id = Val ''r1'', rule_type = Val ''price_change'',
                change_direction = Val ''increase'', threshold = Val 15,
                threshold_type = Val ''percentage''\<rparr>" 15 20 120 100]
        should_trigger_alert_decision
          [of "\<lparr>rule_id = Val ''r2'', rule_type = Val ''price_change'',
                change_direction = Val ''decrease'', threshold = Val 15,
                threshold_type = Val ''percentage''\<rparr>" 15 "- 10" 90 100]
        should_trigger_alert_decision
          [of "\<lparr>rule_id = Val ''r3'', rule_type = Val ''rating_change'',
                change_direction = Val ''any'', threshold = Val (1/2),
                threshold_type = Val ''absolute''\<rparr>" "1/2" "- 1" 3 4]
  by simp

text \<open>
  Claim C10. The trigger decision does not depend on the rule's \<open>threshold_type\<close>: two rules
  that differ only in that field (absent, \<open>None\<close>, percentage, absolute or any other string)
  decide alike on every change value.
\<close>

theorem should_trigger_alert_threshold_type_irrelevant:
  "should_trigger_alert (rule\<lparr>threshold_type := k1\<rparr>) cv cur prev =
   should_trigger_alert (rule\<lparr>threshold_type := k2\<rparr>) cv cur prev"
  by (simp add: should_trigger_alert_def float_threshold_def Let_def split: sum.splits)

section \<open>Results: price and rank evaluation\<close>

subsection \<open>The rounding of float operations\<close>

lemma pow2_powr: "pow2 k = 2 powr (real_of_int k)"
proof (cases "0 \<le> k")
  case True
  then have "2 powr real_of_int k = 2 powr real (nat k)" by simp
  also have "\<dots> = 2 ^ nat k" by (rule powr_realpow) simp
  finally show ?thesis using True by (simp add: pow2_def)
next
  case False
  then have "2 powr real_of_int k = 2 powr (- real (nat (- k)))" by simp
  also have "\<dots> = 1 / 2 powr real (nat (- k))" by (simp add: powr_minus divide_inverse)
  also have "2 powr real (nat (- k)) = 2 ^ nat (- k)" by (rule powr_realpow) simp
  finally show ?thesis using False by (simp add: pow2_def)
qed

lemma pow2_pos: "0 < pow2 k"
  by (simp add: pow2_powr)

lemma pow2_mono: "a \<le> b \<Longrightarrow> pow2 a \<le> pow2 b"
  by (simp add: pow2_powr)

lemma pow2_add: "pow2 (a + b) = pow2 a * pow2 b"
  by (simp add: pow2_powr powr_add)

lemma pow2_diff: "pow2 (a - b) = pow2 a / pow2 b"
  by (simp add: pow2_powr powr_diff)

lemma binary_exponent_lower: "0 < x \<Longrightarrow> pow2 (binary_exponent x) \<le> x"
proof (cases "1 \<le> x")
  case True
  then have n: "0 < \<lfloor>x\<rfloor>" by linarith
  from bitlen_bounds [OF n] have b: "2 ^ nat (bitlen \<lfloor>x\<rfloor> - 1) \<le> \<lfloor>x\<rfloor>" by simp
  have "0 \<le> bitlen \<lfloor>x\<rfloor> - 1" using n by (simp add: bitlen_alt_def)
  then have "pow2 (bitlen \<lfloor>x\<rfloor> - 1) = 2 ^ nat (bitlen \<lfloor>x\<rfloor> - 1)" by (simp add: pow2_def)
  also have "\<dots> = real_of_int (2 ^ nat (bitlen \<lfloor>x\<rfloor> - 1))" by simp
  also have "\<dots> \<le> real_of_int \<lfloor>x\<rfloor>" using b by (simp only: of_int_le_iff)
  also have "\<dots> \<le> x" by simp
  finally show ?thesis using True by (simp add: binary_exponent_def)
next
  case False
  assume x: "0 < x"
  let ?m = "\<lceil>1 / x\<rceil> - 1"
  from False x have "1 < 1 / x" by simp
  then have m: "0 < ?m" by linarith
  from bitlen_bounds [OF m] have b: "?m < 2 ^ nat (bitlen ?m)" by simp
  then have "\<lceil>1 / x\<rceil> \<le> 2 ^ nat (bitlen ?m)" by simp
  then have "real_of_int \<lceil>1 / x\<rceil> \<le> real_of_int (2 ^ nat (bitlen ?m))"
    by (simp only: of_int_le_iff)
  then have "1 / x \<le> 2 ^ nat (bitlen ?m)" by (simp add: ceiling_le_iff)
  with x have le: "1 / 2 ^ nat (bitlen ?m) \<le> x"
    by (metis divide_divide_eq_left' divide_le_eq_1_pos less_eq_real_def mult.commute
        nonzero_mult_div_cancel_left not_less order_less_irrefl zero_less_numeral zero_less_power
        pos_divide_le_eq mult_1)
  have bp: "0 < bitlen ?m" using m by (simp add: bitlen_alt_def)
  then have "pow2 (- bitlen ?m) = 1 / 2 ^ nat (bitlen ?m)" by (simp add: pow2_def)
  with le False show ?thesis by (simp add: binary_exponent_def)
qed

lemma round_half_even_bounds:
  "real_of_int (round_half_even z) \<le> z + 1/2" "z - 1/2 \<le> real_of_int (round_half_even z)"
  by (simp_all add: round_half_even_def Let_def) linarith+


lemma pow2_strict_mono: "a < b \<Longrightarrow> pow2 a < pow2 b"
  by (simp add: pow2_powr)

lemma pow2_Suc: "pow2 (k + 1) = 2 * pow2 k"
  by (simp add: pow2_powr powr_add)

lemma pow2_52: "pow2 52 = 2 ^ 52"
  by (simp add: pow2_def)

lemma round_double_structure:
  assumes nz: "x \<noteq> 0" and small: "\<bar>x\<bar> < pow2 1023"
  shows "\<exists>k q. round_double x = Finite (real_of_int k * pow2 q) \<and> - 1074 \<le> q \<and>
           \<bar>real_of_int k * pow2 q - x\<bar> \<le> max (\<bar>x\<bar> / 2 ^ 53) (pow2 (- 1075))"
proof -
  define e where "e = binary_exponent \<bar>x\<bar>"
  define q where "q = max e (- 1022) - 52"
  define k where "k = round_half_even (x / pow2 q)"
  define y where "y = real_of_int k * pow2 q"
  have pq: "0 < pow2 q" by (rule pow2_pos)
  have qlow: "- 1074 \<le> q" by (simp add: q_def)
  from round_half_even_bounds [of "x / pow2 q"]
  have kb: "\<bar>real_of_int k - x / pow2 q\<bar> \<le> 1 / 2" unfolding k_def by linarith
  have "y - x = (real_of_int k - x / pow2 q) * pow2 q"
    using pq by (simp add: y_def field_simps)
  then have "\<bar>y - x\<bar> = \<bar>real_of_int k - x / pow2 q\<bar> * pow2 q"
    using pq by (simp add: abs_mult)
  also have "\<dots> \<le> 1 / 2 * pow2 q"
    using kb pq by (intro mult_right_mono) simp_all
  finally have err: "\<bar>y - x\<bar> \<le> pow2 q / 2" by simp
  have half: "pow2 q / 2 \<le> max (\<bar>x\<bar> / 2 ^ 53) (pow2 (- 1075))"
  proof (cases "- 1022 \<le> e")
    case True
    then have "q = e - 52" by (simp add: q_def)
    then have "pow2 q = pow2 e / 2 ^ 52" by (simp add: pow2_diff pow2_52)
    moreover have "pow2 e \<le> \<bar>x\<bar>" unfolding e_def using nz by (intro binary_exponent_lower) simp
    ultimately have "pow2 q / 2 \<le> \<bar>x\<bar> / 2 ^ 53" by (simp add: field_simps)
    then show ?thesis by simp
  next
    case False
    then have "q = - 1075 + 1" by (simp add: q_def)
    then have "pow2 q = 2 * pow2 (- 1075)" by (simp only: pow2_Suc)
    then show ?thesis by simp
  qed
  have m1: "\<bar>x\<bar> / 2 ^ 53 < pow2 1023"
  proof -
    have "\<bar>x\<bar> / 2 ^ 53 \<le> \<bar>x\<bar>" by (simp add: field_simps)
    with small show ?thesis by simp
  qed
  have m2: "pow2 (- 1075) < pow2 1023" by (rule pow2_strict_mono) simp
  from m1 m2 have "max (\<bar>x\<bar> / 2 ^ 53) (pow2 (- 1075)) < pow2 1023" by simp
  with err half small have "\<bar>y\<bar> < pow2 1023 + pow2 1023" by linarith
  moreover have "pow2 1024 = 2 * pow2 1023" using pow2_Suc [of 1023] by simp
  ultimately have fin: "\<not> pow2 1024 \<le> y" "\<not> y \<le> - pow2 1024" by linarith+
  have "round_double x = Finite y"
    using nz fin by (simp add: round_double_def Let_def e_def q_def k_def y_def)
  with qlow err half show ?thesis unfolding y_def by (intro exI [of _ k] exI [of _ q]) simp
qed

lemma round_double_finite:
  "\<bar>x\<bar> < pow2 1023 \<Longrightarrow> \<exists>y. round_double x = Finite y"
proof (cases "x = 0")
  case True
  then show ?thesis by (simp add: round_double_def)
next
  case False
  assume "\<bar>x\<bar> < pow2 1023"
  from round_double_structure [OF False this] show ?thesis by blast
qed

lemma round_double_positive:
  assumes low: "pow2 (- 1075) < x" and small: "x < pow2 1023"
  shows "\<exists>y. round_double x = Finite y \<and> pow2 (- 1074) \<le> y \<and> y \<le> 2 * x"
proof -
  have xp: "0 < x" using low pow2_pos [of "- 1075"] by linarith
  then have nz: "x \<noteq> 0" and ab: "\<bar>x\<bar> < pow2 1023" using small by simp_all
  from round_double_structure [OF nz ab] obtain k q where
    r: "round_double x = Finite (real_of_int k * pow2 q)" and q: "- 1074 \<le> q"
    and err: "\<bar>real_of_int k * pow2 q - x\<bar> \<le> max (\<bar>x\<bar> / 2 ^ 53) (pow2 (- 1075))"
    by blast
  let ?y = "real_of_int k * pow2 q"
  have "x / 2 ^ 53 < x" using xp by (simp add: field_simps)
  with low xp have mx: "max (\<bar>x\<bar> / 2 ^ 53) (pow2 (- 1075)) < x" by simp
  with err have ypos: "0 < ?y" and yup: "?y \<le> 2 * x" by linarith+
  from ypos pow2_pos [of q] have "0 < real_of_int k" by (simp add: zero_less_mult_iff)
  then have "1 \<le> real_of_int k" by simp
  then have "1 * pow2 q \<le> ?y" using pow2_pos [of q] by (intro mult_right_mono) simp_all
  moreover have "pow2 (- 1074) \<le> pow2 q" using q by (rule pow2_mono)
  ultimately have "pow2 (- 1074) \<le> ?y" by simp
  with r yup show ?thesis by blast
qed

lemmas float_eval = round_double_def binary_exponent_def pow2_def round_half_even_def Let_def
  bitlen_def compute_floorlog float_of_number_def

lemma float_div_nonzero:
  "y \<noteq> Finite 0 \<Longrightarrow> \<exists>r. float_div x y = Inr r"
  by (cases x; cases y) auto

lemma float_of_number_zero: "float_of_number 0 = Finite 0"
  by (simp add: float_of_number_def round_double_def)

lemma price_change_80_100:
  "float_of_number 80 = Finite 80" "float_of_number 100 = Finite 100"
  "price_change_percent (Finite 80) (Finite 100) = Inr (Finite (- 20))"
  "py_round2 (Finite (- 20)) = Finite (- 20)"
  by (simp_all add: price_change_percent_def float_eval)

subsection \<open>Price and rank\<close>

lemma trigger_loop_accepting:
  "(\<forall>x. accepts db x) \<Longrightarrow> (\<forall>r\<in>set rules. rule_id r \<noteq> Absent) \<Longrightarrow>
   fst (trigger_loop mk cv rules acc db) =
     Inr (acc @ map (\<lambda>r. mk (rule_id_of r))
                  (filter (\<lambda>r. should_trigger_alert_float r cv) rules))"
proof (induction rules arbitrary: acc db)
  case Nil
  then show ?case by simp
next
  case (Cons r rules)
  have "(\<forall>x. accepts (db\<lparr>alerts := xs\<rparr>) x)" for xs using Cons.prems(1) by simp
  with Cons show ?case
    by (cases "rule_id r") (auto simp: rule_subscript_id_def create_alert_record_def rule_id_of_def)
qed

text \<open>
  Claim C2. Price evaluation emits nothing and leaves the table alone when either price is
  \<open>None\<close> or the previous price is 0. Otherwise the change is
  \<open>(latest - previous) / previous * 100\<close> evaluated in float arithmetic on the two prices
  (each operation correctly rounded), the division never raises, and when the table
  accepts the inserts and every rule has an id, the alerts are those of the price rules
  that trigger on this value, in rule order, each recording the value rounded to two
  decimals. With previous price 100, latest price 80 and the single rule (price, decrease,
  15, percentage) the evaluation of the identifier returns exactly one alert, with change
  \<open>-20.0\<close>.
\<close>

theorem check_price_alerts_change_percent:
  "(price latest = None \<or> price previous = None \<or>
    map_option float_of_number (price previous) = Some (Finite 0) \<longrightarrow>
      check_price_alerts a latest previous rules db = (Inr [], db))
   \<and> (price latest = Some c \<and> price previous = Some p \<and> float_of_number p \<noteq> Finite 0 \<and>
      (\<forall>x. accepts db x) \<and> (\<forall>r\<in>set rules. rule_id r \<noteq> Absent) \<longrightarrow>
      (\<exists>ratio.
         float_div (float_sub (float_of_number c) (float_of_number p)) (float_of_number p)
           = Inr ratio \<and>
         fst (check_price_alerts a latest previous rules db) =
           Inr (map (\<lambda>r. \<lparr>alert_asin = a, alert_rule_id = rule_id_of r,
                          message = PriceMessage (float_of_number p) (float_of_number c)
                                      (float_mul ratio (Finite 100)),
                          previous_value = FloatNum (float_of_number p),
                          current_value = FloatNum (float_of_number c),
                          change_percent = py_round2 (float_mul ratio (Finite 100)),
                          alert_snapshot_date = snapshot_date latest\<rparr>)
                  (filter (\<lambda>r. rule_type r = Val ''price_change'' \<and>
                               should_trigger_alert_float r (float_mul ratio (Finite 100)))
                     rules))))
   \<and> (get_latest_snapshot env a = Some latest \<and>
      get_previous_snapshot env a (snapshot_date latest) = Some previous \<and>
      price latest = Some 80 \<and> price previous = Some 100 \<and>
      get_active_rules env = [rule] \<and> rule_type rule = Val ''price_change'' \<and>
      change_direction rule = Val ''decrease'' \<and> threshold rule = Val 15 \<and>
      threshold_type rule = Val ''percentage'' \<and> rule_id rule \<noteq> Absent \<and>
      (\<forall>x. accepts db x) \<longrightarrow>
      (\<exists>ev. fst (check_alerts_for_asin env a db) = [ev] \<and> change_percent ev = Finite (- 20)))"
proof (intro conjI impI)
  assume "price latest = None \<or> price previous = None \<or>
    map_option float_of_number (price previous) = Some (Finite 0)"
  then show "check_price_alerts a latest previous rules db = (Inr [], db)"
    by (auto simp: check_price_alerts_def Let_def split: option.splits)
next
  assume h: "price latest = Some c \<and> price previous = Some p \<and> float_of_number p \<noteq> Finite 0 \<and>
      (\<forall>x. accepts db x) \<and> (\<forall>r\<in>set rules. rule_id r \<noteq> Absent)"
  let ?cur = "float_of_number c" and ?prev = "float_of_number p"
  let ?pr = "filter (\<lambda>rule. rule_type rule = Val ''price_change'') rules"
  from h float_div_nonzero [of ?prev "float_sub ?cur ?prev"]
  obtain ratio where ratio: "float_div (float_sub ?cur ?prev) ?prev = Inr ratio" by blast
  let ?cp = "float_mul ratio (Finite 100)"
  have cp: "price_change_percent ?cur ?prev = Inr ?cp"
    by (simp add: price_change_percent_def ratio)
  have ids: "\<forall>r\<in>set ?pr. rule_id r \<noteq> Absent" using h by simp
  have "fst (check_price_alerts a latest previous rules db) =
           Inr (map (\<lambda>r. \<lparr>alert_asin = a, alert_rule_id = rule_id_of r,
                          message = PriceMessage ?prev ?cur ?cp,
                          previous_value = FloatNum ?prev, current_value = FloatNum ?cur,
                          change_percent = py_round2 ?cp,
                          alert_snapshot_date = snapshot_date latest\<rparr>)
                  (filter (\<lambda>r. rule_type r = Val ''price_change'' \<and>
                               should_trigger_alert_float r ?cp) rules))"
  proof (cases "?pr = []")
    case True
    then have "filter (\<lambda>r. rule_type r = Val ''price_change'' \<and>
                 should_trigger_alert_float r ?cp) rules = []"
      by (auto simp: filter_empty_conv)
    with True show ?thesis by (simp add: check_price_alerts_def)
  next
    case False
    with h cp trigger_loop_accepting [OF _ ids, of db] show ?thesis
      by (simp add: check_price_alerts_def Let_def price_alert_data_def conj_commute)
  qed
  with ratio show "\<exists>ratio.
         float_div (float_sub ?cur ?prev) ?prev = Inr ratio \<and>
         fst (check_price_alerts a latest previous rules db) =
           Inr (map (\<lambda>r. \<lparr>alert_asin = a, alert_rule_id = rule_id_of r,
                          message = PriceMessage ?prev ?cur (float_mul ratio (Finite 100)),
                          previous_value = FloatNum ?prev, current_value = FloatNum ?cur,
                          change_percent = py_round2 (float_mul ratio (Finite 100)),
                          alert_snapshot_date = snapshot_date latest\<rparr>)
                  (filter (\<lambda>r. rule_type r = Val ''price_change'' \<and>
                               should_trigger_alert_float r (float_mul ratio (Finite 100)))
                     rules))"
    by (intro exI [of _ ratio]) simp
next
  assume h: "get_latest_snapshot env a = Some latest \<and>
      get_previous_snapshot env a (snapshot_date latest) = Some previous \<and>
      price latest = Some 80 \<and> price previous = Some 100 \<and>
      get_active_rules env = [rule] \<and> rule_type rule = Val ''price_change'' \<and>
      change_direction rule = Val ''decrease'' \<and> threshold rule = Val 15 \<and>
      threshold_type rule = Val ''percentage'' \<and> rule_id rule \<noteq> Absent \<and>
      (\<forall>x. accepts db x)"
  then have trig: "should_trigger_alert_float rule (Finite (- 20))"
    by (simp add: should_trigger_alert_float_def should_trigger_alert_def float_threshold_def)
  from h obtain rid where rid: "rule_subscript_id rule = Inr rid"
    by (cases "rule_id rule") (auto simp: rule_subscript_id_def)
  from h trig rid
  show "\<exists>ev. fst (check_alerts_for_asin env a db) = [ev] \<and> change_percent ev = Finite (- 20)"
    by (simp add: check_alerts_for_asin_def check_alerts_for_asin_body_def
        check_price_alerts_def check_bsr_alerts_def check_rating_alerts_def
        create_alert_record_def price_alert_data_def price_change_80_100
        del: py_round2.simps)
qed

theorem check_price_alerts_change_percent_witness:
  "check_price_alerts ''X''
      \<lparr>snap_asin = Some ''X'', snapshot_date = ''2024-01-02'', price = Some 80, rating = None,
       review_count = None, bsr_data = []\<rparr>
      \<lparr>snap_asin = Some ''X'', snapshot_date = ''2024-01-01'', price = Some 0, rating = None,
       review_count = None, bsr_data = []\<rparr>
      [\<lparr>rule_id = Val ''r1'', rule_type = Val ''price_change'',
        change_direction = Val ''decrease'', threshold = Val 15,
        threshold_type = Val ''percentage''\<rparr>]
      \<lparr>alerts = [], accepts = (\<lambda>x. True)\<rparr>
     = (Inr [], \<lparr>alerts = [], accepts = (\<lambda>x. True)\<rparr>)
   \<and> fst (check_price_alerts ''X''
      \<lparr>snap_asin = Some ''X'', snapshot_date = ''2024-01-02'', price = Some 80, rating = None,
       review_count = None, bsr_data = []\<rparr>
      \<lparr>snap_asin = Some ''X'', snapshot_date = ''2024-01-01'', price = Some 100, rating = None,
       review_count = None, bsr_data = []\<rparr>
      [\<lparr>rule_id = Val ''r1'', rule_type = Val ''price_change'',
        change_direction = Val ''decrease'', threshold = Val 15,
        threshold_type = Val ''percentage''\<rparr>]
      \<lparr>alerts = [], accepts = (\<lambda>x. True)\<rparr>)
     = Inr [\<lparr>alert_asin = ''X'', alert_rule_id = Some ''r1'',
             message = PriceMessage (Finite 100) (Finite 80) (Finite (- 20)),
             previous_value = FloatNum (Finite 100), current_value = FloatNum (Finite 80),
             change_percent = Finite (- 20), alert_snapshot_date = ''2024-01-02''\<rparr>]
   \<and> fst (check_price_alerts ''X''
      \<lparr>snap_asin = Some ''X'', snapshot_date = ''2024-01-02'', price = Some (128 / 10),
       rating = None, review_count = None, bsr_data = []\<rparr>
      \<lparr>snap_asin = Some ''X'', snapshot_date = ''2024-01-01'', price = Some 16, rating = None,
       review_count = None, bsr_data = []\<rparr>
      [\<lparr>rule_id = Val ''r2'', rule_type = Val ''price_change'',
        change_direction = Val ''decrease'', threshold = Val 20,
        threshold_type = Val ''percentage''\<rparr>]
      \<lparr>alerts = [], accepts = (\<lambda>x. True)\<rparr>)
     = Inr []
   \<and> map change_percent (projr (fst (check_price_alerts ''X''
      \<lparr>snap_asin = Some ''X'', snapshot_date = ''2024-01-02'', price = Some 327,
       rating = None, review_count = None, bsr_data = []\<rparr>
      \<lparr>snap_asin = Some ''X'', snapshot_date = ''2024-01-01'', price = Some 800, rating = None,
       review_count = None, bsr_data = []\<rparr>
      [\<lparr>rule_id = Val ''r1'', rule_type = Val ''price_change'',
        change_direction = Val ''decrease'', threshold = Val 15,
        threshold_type = Val ''percentage''\<rparr>]
      \<lparr>alerts = [], accepts = (\<lambda>x. True)\<rparr>)))
     = [round_double (- 5913 / 100)]
   \<and> (\<exists>ev. fst (check_alerts_for_asin
        \<lparr>get_latest_snapshot = (\<lambda>a. Some
            \<lparr>snap_asin = Some ''X'', snapshot_date = ''2024-01-02'', price = Some 80,
             rating = None, review_count = None, bsr_data = []\<rparr>),
         get_previous_snapshot = (\<lambda>a d. Some
            \<lparr>snap_asin = Some ''X'', snapshot_date = ''2024-01-01'', price = Some 100,
             rating = None, review_count = None, bsr_data = []\<rparr>),
         get_active_rules =
           [\<lparr>rule_id = Val ''r1'', rule_type = Val ''price_change'',
             change_direction = Val ''decrease'', threshold = Val 15,
             threshold_type = Val ''percentage''\<rparr>]\<rparr>
        ''X'' \<lparr>alerts = [], accepts = (\<lambda>x. True)\<rparr>) = [ev] \<and>
        change_percent ev = Finite (- 20))"
proof -
  let ?latest = "\<lparr>snap_asin = Some ''X'', snapshot_date = ''2024-01-02'', price = Some (80::real),
       rating = None, review_count = None, bsr_data = []\<rparr>"
  let ?pzero = "\<lparr>snap_asin = Some ''X'', snapshot_date = ''2024-01-01'', price = Some (0::real),
       rating = None, review_count = None, bsr_data = []\<rparr>"
  let ?prev = "\<lparr>snap_asin = Some ''X'', snapshot_date = ''2024-01-01'', price = Some (100::real),
       rating = None, review_count = None, bsr_data = []\<rparr>"
  let ?l128 = "\<lparr>snap_asin = Some ''X'', snapshot_date = ''2024-01-02'',
       price = Some (128 / 10 :: real), rating = None, review_count = None, bsr_data = []\<rparr>"
  let ?p16 = "\<lparr>snap_asin = Some ''X'', snapshot_date = ''2024-01-01'', price = Some (16::real),
       rating = None, review_count = None, bsr_data = []\<rparr>"
  let ?l327 = "\<lparr>snap_asin = Some ''X'', snapshot_date = ''2024-01-02'',
       price = Some (327 :: real), rating = None, review_count = None, bsr_data = []\<rparr>"
  let ?p800 = "\<lparr>snap_asin = Some ''X'', snapshot_date = ''2024-01-01'', price = Some (800::real),
       rating = None, review_count = None, bsr_data = []\<rparr>"
  let ?rule = "\<lparr>rule_id = Val ''r1'', rule_type = Val ''price_change'',
        change_direction = Val ''decrease'', threshold = Val (15::real),
        threshold_type = Val ''percentage''\<rparr>"
  let ?rule2 = "\<lparr>rule_id = Val ''r2'', rule_type = Val ''price_change'',
        change_direction = Val ''decrease'', threshold = Val (20::real),
        threshold_type = Val ''percentage''\<rparr>"
  let ?db = "\<lparr>alerts = [], accepts = (\<lambda>x. True)\<rparr>"
  let ?env = "\<lparr>get_latest_snapshot = (\<lambda>a. Some ?latest),
         get_previous_snapshot = (\<lambda>a d. Some ?prev), get_active_rules = [?rule]\<rparr>"
  note trig = should_trigger_alert_float_def should_trigger_alert_def float_threshold_def
  note t1 = check_price_alerts_change_percent
              [where latest = ?latest and previous = ?pzero and a = "''X''" and rules = "[?rule]"
                 and db = ?db and c = 80 and p = 0 and env = ?env and rule = ?rule]
  note t2 = check_price_alerts_change_percent
              [where latest = ?latest and previous = ?prev and a = "''X''" and rules = "[?rule]"
                 and db = ?db and c = 80 and p = 100 and env = ?env and rule = ?rule]
  note t3 = check_price_alerts_change_percent
              [where latest = ?l128 and previous = ?p16 and a = "''X''" and rules = "[?rule2]"
                 and db = ?db and c = "128 / 10" and p = 16 and env = ?env and rule = ?rule]
  note t4 = check_price_alerts_change_percent
              [where latest = ?l327 and previous = ?p800 and a = "''X''" and rules = "[?rule]"
                 and db = ?db and c = 327 and p = 800 and env = ?env and rule = ?rule]
  from t1 have c1: "check_price_alerts ''X'' ?latest ?pzero [?rule] ?db = (Inr [], ?db)"
    by (simp add: float_of_number_zero)
  have f2: "float_of_number 80 = Finite 80" "float_of_number 100 = Finite 100"
    "float_of_number 16 = Finite 16" "float_of_number 327 = Finite 327"
    "float_of_number 800 = Finite 800"
    by (simp_all add: float_eval)
  have h2: "price ?latest = Some 80 \<and> price ?prev = Some 100 \<and>
      float_of_number 100 \<noteq> Finite 0 \<and>
      (\<forall>x. accepts ?db x) \<and> (\<forall>r\<in>set [?rule]. rule_id r \<noteq> Absent)"
    by (simp add: f2)
  have d2: "float_div (float_sub (float_of_number 80) (float_of_number 100)) (float_of_number 100)
      = Inr (Finite (- (3602879701896397 / 18014398509481984)))"
    by (simp add: float_eval)
  have m2: "float_mul (Finite (- (3602879701896397 / 18014398509481984))) (Finite 100)
      = Finite (- 20)"
    by (simp add: float_eval)
  from t2 [THEN conjunct2, THEN conjunct1, rule_format, OF h2] obtain ratio2 where
    r2: "float_div (float_sub (float_of_number 80) (float_of_number 100)) (float_of_number 100)
           = Inr ratio2"
    and res2: "fst (check_price_alerts ''X'' ?latest ?prev [?rule] ?db) =
           Inr (map (\<lambda>r. \<lparr>alert_asin = ''X'', alert_rule_id = rule_id_of r,
                          message = PriceMessage (float_of_number 100) (float_of_number 80)
                                      (float_mul ratio2 (Finite 100)),
                          previous_value = FloatNum (float_of_number 100),
                          current_value = FloatNum (float_of_number 80),
                          change_percent = py_round2 (float_mul ratio2 (Finite 100)),
                          alert_snapshot_date = snapshot_date ?latest\<rparr>)
                  (filter (\<lambda>r. rule_type r = Val ''price_change'' \<and>
                               should_trigger_alert_float r (float_mul ratio2 (Finite 100)))
                     [?rule]))"
    by (elim exE conjE)
  from r2 d2 m2 have cp2: "float_mul ratio2 (Finite 100) = Finite (- 20)" by simp
  have c2: "fst (check_price_alerts ''X'' ?latest ?prev [?rule] ?db)
     = Inr [\<lparr>alert_asin = ''X'', alert_rule_id = Some ''r1'',
             message = PriceMessage (Finite 100) (Finite 80) (Finite (- 20)),
             previous_value = FloatNum (Finite 100), current_value = FloatNum (Finite 80),
             change_percent = Finite (- 20), alert_snapshot_date = ''2024-01-02''\<rparr>]"
    unfolding res2 cp2 f2 price_change_80_100(4)
    by (simp add: rule_id_of_def trig)
  have h3: "price ?l128 = Some (128 / 10) \<and> price ?p16 = Some 16 \<and>
      float_of_number 16 \<noteq> Finite 0 \<and>
      (\<forall>x. accepts ?db x) \<and> (\<forall>r\<in>set [?rule2]. rule_id r \<noteq> Absent)"
    by (simp add: f2)
  have d3: "float_div (float_sub (float_of_number (128 / 10)) (float_of_number 16))
       (float_of_number 16) = Inr (Finite (- (3602879701896396 / 18014398509481984)))"
    by (simp add: float_eval)
  have m3: "float_mul (Finite (- (3602879701896396 / 18014398509481984))) (Finite 100)
      = Finite (- (5629499534213119 / 281474976710656))"
    by (simp add: float_eval)
  from t3 [THEN conjunct2, THEN conjunct1, rule_format, OF h3] obtain ratio3 where
    r3: "float_div (float_sub (float_of_number (128 / 10)) (float_of_number 16))
           (float_of_number 16) = Inr ratio3"
    and res3: "fst (check_price_alerts ''X'' ?l128 ?p16 [?rule2] ?db) =
           Inr (map (\<lambda>r. \<lparr>alert_asin = ''X'', alert_rule_id = rule_id_of r,
                          message = PriceMessage (float_of_number 16) (float_of_number (128 / 10))
                                      (float_mul ratio3 (Finite 100)),
                          previous_value = FloatNum (float_of_number 16),
                          current_value = FloatNum (float_of_number (128 / 10)),
                          change_percent = py_round2 (float_mul ratio3 (Finite 100)),
                          alert_snapshot_date = snapshot_date ?l128\<rparr>)
                  (filter (\<lambda>r. rule_type r = Val ''price_change'' \<and>
                               should_trigger_alert_float r (float_mul ratio3 (Finite 100)))
                     [?rule2]))"
    by (elim exE conjE)
  from r3 d3 m3 have cp3: "float_mul ratio3 (Finite 100)
      = Finite (- (5629499534213119 / 281474976710656))" by simp
  have c3: "fst (check_price_alerts ''X'' ?l128 ?p16 [?rule2] ?db) = Inr []"
    unfolding res3 cp3 by (simp add: trig)
  have h4: "price ?l327 = Some 327 \<and> price ?p800 = Some 800 \<and>
      float_of_number 800 \<noteq> Finite 0 \<and>
      (\<forall>x. accepts ?db x) \<and> (\<forall>r\<in>set [?rule]. rule_id r \<noteq> Absent)"
    by (simp add: f2)
  have d4: "float_div (float_sub (float_of_number 327) (float_of_number 800))
       (float_of_number 800) = Inr (Finite (- (1331376639841403 / 2251799813685248)))"
    by (simp add: float_eval)
  have m4: "float_mul (Finite (- (1331376639841403 / 2251799813685248))) (Finite 100)
      = Finite (- (8321103999008769 / 140737488355328))"
    by (simp add: float_eval)
  have r4: "py_round2 (Finite (- (8321103999008769 / 140737488355328)))
      = round_double (- 5913 / 100)"
    by (simp add: float_eval)
  from t4 [THEN conjunct2, THEN conjunct1, rule_format, OF h4] obtain ratio4 where
    q4: "float_div (float_sub (float_of_number 327) (float_of_number 800))
           (float_of_number 800) = Inr ratio4"
    and res4: "fst (check_price_alerts ''X'' ?l327 ?p800 [?rule] ?db) =
           Inr (map (\<lambda>r. \<lparr>alert_asin = ''X'', alert_rule_id = rule_id_of r,
                          message = PriceMessage (float_of_number 800) (float_of_number 327)
                                      (float_mul ratio4 (Finite 100)),
                          previous_value = FloatNum (float_of_number 800),
                          current_value = FloatNum (float_of_number 327),
                          change_percent = py_round2 (float_mul ratio4 (Finite 100)),
                          alert_snapshot_date = snapshot_date ?l327\<rparr>)
                  (filter (\<lambda>r. rule_type r = Val ''price_change'' \<and>
                               should_trigger_alert_float r (float_mul ratio4 (Finite 100)))
                     [?rule]))"
    by (elim exE conjE)
  from q4 d4 m4 have cp4: "float_mul ratio4 (Finite 100)
      = Finite (- (8321103999008769 / 140737488355328))" by simp
  have c4: "map change_percent (projr (fst (check_price_alerts ''X'' ?l327 ?p800 [?rule] ?db)))
     = [round_double (- 5913 / 100)]"
    unfolding res4 cp4 r4 by (simp add: trig)
  from t2 have c5: "\<exists>ev. fst (check_alerts_for_asin ?env ''X'' ?db) = [ev] \<and>
                      change_percent ev = Finite (- 20)"
    by simp
  from c1 c2 c3 c4 c5 show ?thesis by (intro conjI)
qed

lemma bsr_change_1000_1500:
  "bsr_change_percent 1000 1500 = Inr (Finite (2345624805922133 / 70368744177664))"
  "py_round2 (Finite (2345624805922133 / 70368744177664)) = round_double (3333 / 100)"
  by (simp_all add: bsr_change_percent_def int_true_divide_def float_eval)

lemma int_true_divide_finite:
  assumes "prev \<noteq> 0" "\<bar>d\<bar> < 2 ^ 1023 * \<bar>prev\<bar>"
  shows "\<exists>y. int_true_divide d prev = Inr (Finite y)"
proof -
  have p: "0 < \<bar>real_of_int prev\<bar>" using assms(1) by simp
  have "real_of_int \<bar>d\<bar> < real_of_int (2 ^ 1023 * \<bar>prev\<bar>)"
    using assms(2) by (simp only: of_int_less_iff)
  then have "\<bar>real_of_int d\<bar> < 2 ^ 1023 * \<bar>real_of_int prev\<bar>" by simp
  with p have "\<bar>real_of_int d\<bar> / \<bar>real_of_int prev\<bar> < 2 ^ 1023"
    by (simp add: pos_divide_less_eq)
  then have "\<bar>real_of_int d / real_of_int prev\<bar> < pow2 1023" by (simp add: pow2_def)
  from round_double_finite [OF this] obtain y where
    "round_double (real_of_int d / real_of_int prev) = Finite y" by blast
  with assms(1) show ?thesis by (simp add: int_true_divide_def)
qed

lemma improved_rank_positive:
  assumes "0 < cur" "cur < prev" "prev < 2 ^ 1075"
  shows "\<exists>y. bsr_change_percent cur prev = Inr (Finite y) \<and> 0 < y"
proof -
  let ?x = "real_of_int (prev - cur) / real_of_int prev"
  have pp: "0 < real_of_int prev" using assms by simp
  have "real_of_int prev < real_of_int (2 ^ 1075)" using assms(3) by (simp only: of_int_less_iff)
  then have pb: "real_of_int prev < 2 ^ 1075" by simp
  have "1 \<le> real_of_int (prev - cur)" using assms(2) by simp
  then have "1 / real_of_int prev \<le> ?x" using pp by (simp add: divide_right_mono)
  moreover have "1 / 2 ^ 1075 < 1 / real_of_int prev"
    using pp pb by (simp add: divide_strict_left_mono)
  moreover have "pow2 (- 1075) = 1 / 2 ^ 1075" by (simp add: pow2_def)
  ultimately have low: "pow2 (- 1075) < ?x" by simp
  have "real_of_int (prev - cur) < real_of_int prev" using assms(1) by simp
  then have x1: "?x < 1" using pp by simp
  have one: "1 \<le> pow2 1023" using pow2_mono [of 0 1023] by (simp add: pow2_def)
  from x1 one have small: "?x < pow2 1023" by simp
  from round_double_positive [OF low small] obtain y where
    y: "round_double ?x = Finite y" "pow2 (- 1074) \<le> y" "y \<le> 2 * ?x" by blast
  have div: "int_true_divide (prev - cur) prev = Inr (Finite y)"
    using assms y(1) by (simp add: int_true_divide_def)
  have "pow2 (- 1075) < pow2 (- 1074)" by (rule pow2_strict_mono) simp
  with y(2) pow2_pos [of "- 1074"] have low2: "pow2 (- 1075) < y * 100" by simp
  have "pow2 8 \<le> pow2 1023" by (rule pow2_mono) simp
  moreover have "pow2 8 = 256" by (simp add: pow2_def)
  ultimately have big: "256 \<le> pow2 1023" by simp
  from y(3) x1 have "y < 2" by linarith
  with big have "y * 100 < pow2 1023" by linarith
  from round_double_positive [OF low2 this] obtain z where
    z: "round_double (y * 100) = Finite z" "pow2 (- 1074) \<le> z" by blast
  from z(2) pow2_pos [of "- 1074"] have "0 < z" by simp
  with div z(1) show ?thesis by (simp add: bsr_change_percent_def)
qed

text \<open>
  Claim C3. Rank evaluation reads the first entry of \<open>bsr_data\<close> of each snapshot and emits
  nothing when either list is empty, either first rank is missing, or the previous rank is
  0. Otherwise the change is \<open>(previous - latest) / previous * 100\<close>, an exact integer
  difference, a correctly rounded division and a float product; the alerts are those of
  the rank rules that trigger on it, and the check raises only when the quotient is beyond
  the range of a float, which no quotient below \<open>2^1023\<close> is. The change is positive when the
  latest rank is the lower one (ranks below \<open>2^1075\<close>). Previous rank 1500 and latest rank
  1000 give 33.33333333333333, recorded as 33.33, which triggers an increase rule with
  threshold 20.
\<close>

theorem check_bsr_alerts_change_percent:
  "(bsr_data latest = [] \<or> bsr_data previous = [] \<or>
    bsr_rank (hd (bsr_data latest)) = None \<or> bsr_rank (hd (bsr_data previous)) = None \<or>
    bsr_rank (hd (bsr_data previous)) = Some 0 \<longrightarrow>
      check_bsr_alerts a latest previous rules db = (Inr [], db))
   \<and> (bsr_data latest = cb # crest \<and> bsr_data previous = pb # prest \<and>
      bsr_rank cb = Some cur \<and> bsr_rank pb = Some prev \<and> prev \<noteq> 0 \<and>
      (\<forall>x. accepts db x) \<and> (\<forall>r\<in>set rules. rule_id r \<noteq> Absent) \<and>
      (\<exists>r\<in>set rules. rule_type r = Val ''bsr_change'') \<longrightarrow>
      fst (check_bsr_alerts a latest previous rules db) =
        (case int_true_divide (prev - cur) prev of
           Inl e \<Rightarrow> Inl e
         | Inr ratio \<Rightarrow>
             Inr (map (\<lambda>r. \<lparr>alert_asin = a, alert_rule_id = rule_id_of r,
                            message = BsrMessage prev cur (float_mul ratio (Finite 100)),
                            previous_value = IntNum prev, current_value = IntNum cur,
                            change_percent = py_round2 (float_mul ratio (Finite 100)),
                            alert_snapshot_date = snapshot_date latest\<rparr>)
                    (filter (\<lambda>r. rule_type r = Val ''bsr_change'' \<and>
                                 should_trigger_alert_float r (float_mul ratio (Finite 100)))
                       rules))))
   \<and> (prev \<noteq> 0 \<and> \<bar>prev - cur\<bar> < 2 ^ 1023 * \<bar>prev\<bar> \<longrightarrow>
      (\<exists>y. int_true_divide (prev - cur) prev = Inr (Finite y)))
   \<and> (0 < cur \<and> cur < prev \<and> prev < 2 ^ 1075 \<longrightarrow>
      (\<exists>y. bsr_change_percent cur prev = Inr (Finite y) \<and> 0 < y))
   \<and> (bsr_data latest = cb # crest \<and> bsr_data previous = pb # prest \<and>
      bsr_rank cb = Some 1000 \<and> bsr_rank pb = Some 1500 \<and>
      rules = [rule] \<and> rule_type rule = Val ''bsr_change'' \<and>
      change_direction rule = Val ''increase'' \<and> threshold rule = Val 20 \<and>
      rule_id rule \<noteq> Absent \<and> (\<forall>x. accepts db x) \<longrightarrow>
      bsr_change_percent 1000 1500 = Inr (Finite (2345624805922133 / 70368744177664)) \<and>
      should_trigger_alert_float rule (Finite (2345624805922133 / 70368744177664)) \<and>
      (\<exists>ev. fst (check_bsr_alerts a latest previous rules db) = Inr [ev] \<and>
            change_percent ev = round_double (3333 / 100)))"
proof (intro conjI impI)
  assume "bsr_data latest = [] \<or> bsr_data previous = [] \<or>
    bsr_rank (hd (bsr_data latest)) = None \<or> bsr_rank (hd (bsr_data previous)) = None \<or>
    bsr_rank (hd (bsr_data previous)) = Some 0"
  then show "check_bsr_alerts a latest previous rules db = (Inr [], db)"
    by (auto simp: check_bsr_alerts_def Let_def split: option.splits list.splits)
next
  assume h: "bsr_data latest = cb # crest \<and> bsr_data previous = pb # prest \<and>
      bsr_rank cb = Some cur \<and> bsr_rank pb = Some prev \<and> prev \<noteq> 0 \<and>
      (\<forall>x. accepts db x) \<and> (\<forall>r\<in>set rules. rule_id r \<noteq> Absent) \<and>
      (\<exists>r\<in>set rules. rule_type r = Val ''bsr_change'')"
  let ?br = "filter (\<lambda>rule. rule_type rule = Val ''bsr_change'') rules"
  have ids: "\<forall>r\<in>set ?br. rule_id r \<noteq> Absent" using h by simp
  have ne: "?br \<noteq> []" using h by (auto simp: filter_empty_conv)
  show "fst (check_bsr_alerts a latest previous rules db) =
        (case int_true_divide (prev - cur) prev of
           Inl e \<Rightarrow> Inl e
         | Inr ratio \<Rightarrow>
             Inr (map (\<lambda>r. \<lparr>alert_asin = a, alert_rule_id = rule_id_of r,
                            message = BsrMessage prev cur (float_mul ratio (Finite 100)),
                            previous_value = IntNum prev, current_value = IntNum cur,
                            change_percent = py_round2 (float_mul ratio (Finite 100)),
                            alert_snapshot_date = snapshot_date latest\<rparr>)
                    (filter (\<lambda>r. rule_type r = Val ''bsr_change'' \<and>
                                 should_trigger_alert_float r (float_mul ratio (Finite 100)))
                       rules)))"
  proof (cases "int_true_divide (prev - cur) prev")
    case (Inl e)
    with h ne show ?thesis
      by (simp add: check_bsr_alerts_def Let_def bsr_change_percent_def)
  next
    case (Inr ratio)
    with h ne trigger_loop_accepting [OF _ ids, of db] show ?thesis
      by (simp add: check_bsr_alerts_def Let_def bsr_alert_data_def bsr_change_percent_def
          conj_commute)
  qed
next
  assume "prev \<noteq> 0 \<and> \<bar>prev - cur\<bar> < 2 ^ 1023 * \<bar>prev\<bar>"
  then show "\<exists>y. int_true_divide (prev - cur) prev = Inr (Finite y)"
    by (simp add: int_true_divide_finite)
next
  assume "0 < cur \<and> cur < prev \<and> prev < 2 ^ 1075"
  then show "\<exists>y. bsr_change_percent cur prev = Inr (Finite y) \<and> 0 < y"
    by (simp add: improved_rank_positive)
next
  show "bsr_change_percent 1000 1500 = Inr (Finite (2345624805922133 / 70368744177664))"
    by (rule bsr_change_1000_1500(1))
next
  assume h: "bsr_data latest = cb # crest \<and> bsr_data previous = pb # prest \<and>
      bsr_rank cb = Some 1000 \<and> bsr_rank pb = Some 1500 \<and>
      rules = [rule] \<and> rule_type rule = Val ''bsr_change'' \<and>
      change_direction rule = Val ''increase'' \<and> threshold rule = Val 20 \<and>
      rule_id rule \<noteq> Absent \<and> (\<forall>x. accepts db x)"
  then show trig: "should_trigger_alert_float rule (Finite (2345624805922133 / 70368744177664))"
    by (simp add: should_trigger_alert_float_def should_trigger_alert_def float_threshold_def
        Let_def)
  from h obtain rid where rid: "rule_subscript_id rule = Inr rid"
    by (cases "rule_id rule") (auto simp: rule_subscript_id_def)
  from h trig rid
  show "\<exists>ev. fst (check_bsr_alerts a latest previous rules db) = Inr [ev] \<and>
            change_percent ev = round_double (3333 / 100)"
    by (simp add: check_bsr_alerts_def create_alert_record_def bsr_alert_data_def
        bsr_change_1000_1500 Let_def del: py_round2.simps)
qed

theorem check_bsr_alerts_change_percent_witness:
  "check_bsr_alerts ''X''
      \<lparr>snap_asin = Some ''X'', snapshot_date = ''2024-01-02'', price = None, rating = None,
       review_count = None, bsr_data = []\<rparr>
      \<lparr>snap_asin = Some ''X'', snapshot_date = ''2024-01-01'', price = None, rating = None,
       review_count = None,
       bsr_data = [\<lparr>bsr_rank = Some 1500, bsr_category = ''Sports''\<rparr>]\<rparr>
      [\<lparr>rule_id = Val ''r7'', rule_type = Val ''bsr_change'',
        change_direction = Val ''increase'', threshold = Val 20,
        threshold_type = Val ''percentage''\<rparr>]
      \<lparr>alerts = [], accepts = (\<lambda>x. True)\<rparr>
     = (Inr [], \<lparr>alerts = [], accepts = (\<lambda>x. True)\<rparr>)
   \<and> (\<exists>ev. fst (check_bsr_alerts ''X''
      \<lparr>snap_asin = Some ''X'', snapshot_date = ''2024-01-02'', price = None, rating = None,
       review_count = None,
       bsr_data = [\<lparr>bsr_rank = Some 1000, bsr_category = ''Sports''\<rparr>,
                   \<lparr>bsr_rank = Some 8, bsr_category = ''Yoga Mats''\<rparr>]\<rparr>
      \<lparr>snap_asin = Some ''X'', snapshot_date = ''2024-01-01'', price = None, rating = None,
       review_count = None,
       bsr_data = [\<lparr>bsr_rank = Some 1500, bsr_category = ''Sports''\<rparr>]\<rparr>
      [\<lparr>rule_id = Val ''r7'', rule_type = Val ''bsr_change'',
        change_direction = Val ''increase'', threshold = Val 20,
        threshold_type = Val ''percentage''\<rparr>]
      \<lparr>alerts = [], accepts = (\<lambda>x. True)\<rparr>) = Inr [ev] \<and>
      change_percent ev = round_double (3333 / 100))
   \<and> fst (check_bsr_alerts ''X''
      \<lparr>snap_asin = Some ''X'', snapshot_date = ''2024-01-02'', price = None, rating = None,
       review_count = None,
       bsr_data = [\<lparr>bsr_rank = Some 71, bsr_category = ''Sports''\<rparr>]\<rparr>
      \<lparr>snap_asin = Some ''X'', snapshot_date = ''2024-01-01'', price = None, rating = None,
       review_count = None,
       bsr_data = [\<lparr>bsr_rank = Some 100, bsr_category = ''Sports''\<rparr>]\<rparr>
      [\<lparr>rule_id = Val ''r8'', rule_type = Val ''bsr_change'',
        change_direction = Val ''increase'', threshold = Val 29,
        threshold_type = Val ''percentage''\<rparr>]
      \<lparr>alerts = [], accepts = (\<lambda>x. True)\<rparr>) = Inr []
   \<and> (\<exists>y. int_true_divide (1500 - 1000) 1500 = Inr (Finite y))
   \<and> (\<exists>y. bsr_change_percent 1000 1500 = Inr (Finite y) \<and> 0 < y)"
proof -
  let ?lempty = "\<lparr>snap_asin = Some ''X'', snapshot_date = ''2024-01-02'', price = None, rating = None,
       review_count = None, bsr_data = []\<rparr>"
  let ?l = "\<lparr>snap_asin = Some ''X'', snapshot_date = ''2024-01-02'', price = None, rating = None,
       review_count = None,
       bsr_data = [\<lparr>bsr_rank = Some 1000, bsr_category = ''Sports''\<rparr>,
                   \<lparr>bsr_rank = Some 8, bsr_category = ''Yoga Mats''\<rparr>]\<rparr>"
  let ?p = "\<lparr>snap_asin = Some ''X'', snapshot_date = ''2024-01-01'', price = None, rating = None,
       review_count = None,
       bsr_data = [\<lparr>bsr_rank = Some 1500, bsr_category = ''Sports''\<rparr>]\<rparr>"
  let ?l71 = "\<lparr>snap_asin = Some ''X'', snapshot_date = ''2024-01-02'', price = None, rating = None,
       review_count = None,
       bsr_data = [\<lparr>bsr_rank = Some 71, bsr_category = ''Sports''\<rparr>]\<rparr>"
  let ?p100 = "\<lparr>snap_asin = Some ''X'', snapshot_date = ''2024-01-01'', price = None, rating = None,
       review_count = None,
       bsr_data = [\<lparr>bsr_rank = Some 100, bsr_category = ''Sports''\<rparr>]\<rparr>"
  let ?rule = "\<lparr>rule_id = Val ''r7'', rule_type = Val ''bsr_change'',
        change_direction = Val ''increase'', threshold = Val (20::real),
        threshold_type = Val ''percentage''\<rparr>"
  let ?rule29 = "\<lparr>rule_id = Val ''r8'', rule_type = Val ''bsr_change'',
        change_direction = Val ''increase'', threshold = Val (29::real),
        threshold_type = Val ''percentage''\<rparr>"
  let ?db = "\<lparr>alerts = [], accepts = (\<lambda>x. True)\<rparr>"
  note trig = should_trigger_alert_float_def should_trigger_alert_def float_threshold_def
  note t1 = check_bsr_alerts_change_percent
     [where latest = ?lempty and previous = ?p and a = "''X''" and rules = "[?rule]"
        and db = ?db and cb = "\<lparr>bsr_rank = Some 1000, bsr_category = ''Sports''\<rparr>"
        and crest = "[]" and pb = "\<lparr>bsr_rank = Some 1500, bsr_category = ''Sports''\<rparr>"
        and prest = "[]" and cur = 1000 and prev = 1500 and rule = ?rule]
  note t2 = check_bsr_alerts_change_percent
     [where latest = ?l and previous = ?p and a = "''X''" and rules = "[?rule]"
        and db = ?db and cb = "\<lparr>bsr_rank = Some 1000, bsr_category = ''Sports''\<rparr>"
        and crest = "[\<lparr>bsr_rank = Some 8, bsr_category = ''Yoga Mats''\<rparr>]"
        and pb = "\<lparr>bsr_rank = Some 1500, bsr_category = ''Sports''\<rparr>"
        and prest = "[]" and cur = 1000 and prev = 1500 and rule = ?rule]
  note t3 = check_bsr_alerts_change_percent
     [where latest = ?l71 and previous = ?p100 and a = "''X''" and rules = "[?rule29]"
        and db = ?db and cb = "\<lparr>bsr_rank = Some 71, bsr_category = ''Sports''\<rparr>"
        and crest = "[]" and pb = "\<lparr>bsr_rank = Some 100, bsr_category = ''Sports''\<rparr>"
        and prest = "[]" and cur = 71 and prev = 100 and rule = ?rule29]
  from t1 have c1: "check_bsr_alerts ''X'' ?lempty ?p [?rule] ?db = (Inr [], ?db)" by simp
  from t2 [THEN conjunct2, THEN conjunct2, THEN conjunct2, THEN conjunct2]
  have c2: "\<exists>ev. fst (check_bsr_alerts ''X'' ?l ?p [?rule] ?db) = Inr [ev] \<and>
        change_percent ev = round_double (3333 / 100)" by simp
  have h3: "bsr_data ?l71 = \<lparr>bsr_rank = Some 71, bsr_category = ''Sports''\<rparr> # [] \<and>
      bsr_data ?p100 = \<lparr>bsr_rank = Some 100, bsr_category = ''Sports''\<rparr> # [] \<and>
      bsr_rank \<lparr>bsr_rank = Some 71, bsr_category = ''Sports''\<rparr> = Some 71 \<and>
      bsr_rank \<lparr>bsr_rank = Some 100, bsr_category = ''Sports''\<rparr> = Some 100 \<and>
      (100::int) \<noteq> 0 \<and>
      (\<forall>x. accepts ?db x) \<and> (\<forall>r\<in>set [?rule29]. rule_id r \<noteq> Absent) \<and>
      (\<exists>r\<in>set [?rule29]. rule_type r = Val ''bsr_change'')"
    by simp
  have d3: "int_true_divide (100 - 71) 100 = Inr (Finite (5224175567749775 / 18014398509481984))"
    by (simp add: int_true_divide_def float_eval)
  have m3: "float_mul (Finite (5224175567749775 / 18014398509481984)) (Finite 100)
      = Finite (8162774324609023 / 281474976710656)"
    by (simp add: float_eval)
  have c3: "fst (check_bsr_alerts ''X'' ?l71 ?p100 [?rule29] ?db) = Inr []"
    unfolding t3 [THEN conjunct2, THEN conjunct1, rule_format, OF h3] d3 sum.case m3
    by (simp add: trig)
  from t2 [THEN conjunct2, THEN conjunct2, THEN conjunct1]
  have c4: "\<exists>y. int_true_divide (1500 - 1000) 1500 = Inr (Finite y)" by simp
  from t2 [THEN conjunct2, THEN conjunct2, THEN conjunct2, THEN conjunct1]
  have c5: "\<exists>y. bsr_change_percent 1000 1500 = Inr (Finite y) \<and> 0 < y" by simp
  from c1 c2 c3 c4 c5 show ?thesis by (intro conjI)
qed

section \<open>Results: eligible identifiers\<close>

text \<open>
  The bound for completed identifiers is the end of the previous calendar day, not
  \<open>now - 1 day\<close>: at 08:00 of day 1 an identifier completed at 20:00 of day 0 is
  selected, twelve hours after its timestamp.
\<close>

theorem get_asins_to_scrape_spec_counterexample:
  "get_asins_to_scrape
      \<lparr>client_available = True, select_raises = False, upsert_raises = False,
       row_select_raises = (\<lambda>a. False), row_update_raises = (\<lambda>a. False)\<rparr>
      [\<lparr>row_asin = ''B01'', status = ''completed'', task_timestamp = Some 72000000000,
        retry_count = 0\<rparr>]
      115200000000 100 = [''B01'']
   \<and> \<not> spec_eligible 115200000000
        \<lparr>row_asin = ''B01'', status = ''completed'', task_timestamp = Some 72000000000,
         retry_count = 0\<rparr>"
  by (simp add: get_asins_to_scrape_def rows_to_scrape_def scrape_filter_def one_day_ago_def
      us_per_day_def spec_eligible_def)

text \<open>
  Claim C5, amended. The selection returns the identifiers of rows of the table, each
  pending, or completed with a timestamp no later than the last microsecond of the
  calendar day before \<open>now\<close>, or running with a timestamp more than five minutes old, or
  failed with fewer than three retries; the rows are in ascending timestamp order (rows
  without a timestamp last) and at most \<open>limit\<close> of them. No returned row is running with
  a timestamp within the last five minutes.
\<close>

theorem get_asins_to_scrape_selection:
  "\<exists>rows. get_asins_to_scrape env tbl now limit = map row_asin rows
     \<and> set rows \<subseteq> set tbl
     \<and> (\<forall>r\<in>set rows.
           status r = ''pending''
           \<or> (status r = ''completed'' \<and>
               (\<exists>t. task_timestamp r = Some t \<and>
                    t \<le> ((now - us_per_day) div us_per_day) * us_per_day + (us_per_day - 1)))
           \<or> (status r = ''running'' \<and>
               (\<exists>t. task_timestamp r = Some t \<and> t < now - 300000000))
           \<or> (status r = ''failed'' \<and> retry_count r < 3))
     \<and> sorted (map order_key rows)
     \<and> length rows \<le> limit
     \<and> (\<forall>r\<in>set rows. \<forall>t. status r = ''running'' \<and> task_timestamp r = Some t \<longrightarrow>
           \<not> (now - 300000000 \<le> t))"
proof (cases "\<not> client_available env \<or> select_raises env")
  case True
  then have "get_asins_to_scrape env tbl now limit = map row_asin []"
    by (auto simp: get_asins_to_scrape_def)
  then show ?thesis by (intro exI [of _ "[]"]) simp
next
  case False
  let ?rows = "rows_to_scrape tbl now limit"
  have sub: "set ?rows \<subseteq> set (filter (scrape_filter now) tbl)"
    unfolding rows_to_scrape_def using set_take_subset [of limit] by fastforce
  have elig: "\<forall>r\<in>set ?rows. scrape_filter now r" using sub by auto
  have 1: "get_asins_to_scrape env tbl now limit = map row_asin ?rows"
    using False by (simp add: get_asins_to_scrape_def)
  have 2: "set ?rows \<subseteq> set tbl" using sub by auto
  have 3: "\<forall>r\<in>set ?rows.
           status r = ''pending''
           \<or> (status r = ''completed'' \<and>
               (\<exists>t. task_timestamp r = Some t \<and>
                    t \<le> ((now - us_per_day) div us_per_day) * us_per_day + (us_per_day - 1)))
           \<or> (status r = ''running'' \<and>
               (\<exists>t. task_timestamp r = Some t \<and> t < now - 300000000))
           \<or> (status r = ''failed'' \<and> retry_count r < 3)"
    using elig
    by (auto simp: scrape_filter_def one_day_ago_def five_minutes_ago_def split: option.splits)
  have 4: "sorted (map order_key ?rows)"
    unfolding rows_to_scrape_def by (simp add: take_map [symmetric] sorted_wrt_take)
  have 5: "length ?rows \<le> limit" by (simp add: rows_to_scrape_def)
  have 6: "\<forall>r\<in>set ?rows. \<forall>t. status r = ''running'' \<and> task_timestamp r = Some t \<longrightarrow>
           \<not> (now - 300000000 \<le> t)"
    using elig by (auto simp: scrape_filter_def five_minutes_ago_def)
  from 1 2 3 4 5 6 show ?thesis by blast
qed

theorem get_asins_to_scrape_selection_witness:
  "get_asins_to_scrape
      \<lparr>client_available = True, select_raises = False, upsert_raises = False,
       row_select_raises = (\<lambda>a. False), row_update_raises = (\<lambda>a. False)\<rparr>
      [\<lparr>row_asin = ''A1'', status = ''running'', task_timestamp = Some 199940000000,
        retry_count = 0\<rparr>,
       \<lparr>row_asin = ''A2'', status = ''running'', task_timestamp = Some 199400000000,
        retry_count = 0\<rparr>,
       \<lparr>row_asin = ''A3'', status = ''pending'', task_timestamp = None, retry_count = 0\<rparr>,
       \<lparr>row_asin = ''A4'', status = ''completed'', task_timestamp = Some 20000000000,
        retry_count = 0\<rparr>,
       \<lparr>row_asin = ''A5'', status = ''failed'', task_timestamp = Some 10000000000,
        retry_count = 3\<rparr>]
      200000000000 2 = [''A4'', ''A2'']
   \<and> (\<exists>rows. [''A4'', ''A2''] = map row_asin rows \<and> length rows \<le> 2 \<and>
         sorted (map order_key rows) \<and>
         (\<forall>r\<in>set rows. \<forall>t. status r = ''running'' \<and> task_timestamp r = Some t \<longrightarrow>
             \<not> (200000000000 - 300000000 \<le> t)))"
proof -
  let ?env = "\<lparr>client_available = True, select_raises = False, upsert_raises = False,
       row_select_raises = (\<lambda>a. False), row_update_raises = (\<lambda>a. False)\<rparr>"
  let ?tbl = "[\<lparr>row_asin = ''A1'', status = ''running'', task_timestamp = Some 199940000000,
        retry_count = 0\<rparr>,
       \<lparr>row_asin = ''A2'', status = ''running'', task_timestamp = Some 199400000000,
        retry_count = 0\<rparr>,
       \<lparr>row_asin = ''A3'', status = ''pending'', task_timestamp = None, retry_count = 0\<rparr>,
       \<lparr>row_asin = ''A4'', status = ''completed'', task_timestamp = Some 20000000000,
        retry_count = 0\<rparr>,
       \<lparr>row_asin = ''A5'', status = ''failed'', task_timestamp = Some 10000000000,
        retry_count = 3\<rparr>]"
  have ev: "get_asins_to_scrape ?env ?tbl 200000000000 2 = [''A4'', ''A2'']"
    by (simp add: get_asins_to_scrape_def rows_to_scrape_def scrape_filter_def
        one_day_ago_def five_minutes_ago_def us_per_day_def order_key_def)
  from get_asins_to_scrape_selection [of ?env ?tbl 200000000000 2]
  obtain rows where
    "get_asins_to_scrape ?env ?tbl 200000000000 2 = map row_asin rows"
    "length rows \<le> 2" "sorted (map order_key rows)"
    "\<forall>r\<in>set rows. \<forall>t. status r = ''running'' \<and> task_timestamp r = Some t \<longrightarrow>
        \<not> (200000000000 - 300000000 \<le> t)"
    by blast
  with ev show ?thesis by metis
qed

section \<open>Results: batch status transition\<close>

lemma apply_update_asin [simp]: "row_asin (apply_update u r) = row_asin r"
  by (simp add: apply_update_def)

lemma apply_update_idem [simp]: "apply_update u (apply_update u r) = apply_update u r"
  by (simp add: apply_update_def split: option.splits)















lemma transition_row_asin [simp]: "row_asin (transition_row st ts r) = row_asin r"
  by (simp add: transition_row_def)










lemma funpow_row_asin [simp]: "row_asin ((transition_row st ts ^^ n) r) = row_asin r"
  by (induction n) simp_all





section \<open>Results: webhook ingestion and alert evaluation of a batch\<close>












lemma check_alerts_loop_dom:
  "dom (fst (check_alerts_loop env asins results db)) = dom results \<union> set asins"
  by (induction asins arbitrary: results db) (auto split: prod.splits)

lemma check_alerts_loop_append:
  "check_alerts_loop env (xs @ ys) results db =
     check_alerts_loop env ys (fst (check_alerts_loop env xs results db))
       (snd (check_alerts_loop env xs results db))"
  by (induction xs arbitrary: results db) (auto split: prod.splits)

lemma check_alerts_loop_other:
  "a \<notin> set asins \<Longrightarrow> fst (check_alerts_loop env asins results db) a = results a"
  by (induction asins arbitrary: results db) (auto split: prod.splits)

lemma bulk_update_success_count:
  "asins \<noteq> [] \<Longrightarrow>
   log_status_update (fst (bulk_update_asin_status env tbl asins st ts)) = Inr ()"
  by (auto simp: bulk_update_asin_status_def log_status_update_def split: prod.splits)

lemma check_alerts_entry:
  "a \<notin> set post \<Longrightarrow>
   fst (check_alerts_for_asins env (pre @ a # post) db) a =
     Some (fst (check_alerts_for_asin env a (snd (check_alerts_for_asins env pre db))))"
  by (simp add: check_alerts_for_asins_def check_alerts_loop_append check_alerts_loop_other
      split: prod.splits)

lemma webhook_alert_results:
  assumes "truthy dataset_id" "collector_available wenv"
    and "get_parsed_dataset_items wenv (the dataset_id) = Inr dataset_items"
    and "batch_asins dataset_items \<noteq> []"
    and "fst (bulk_update_products wenv (products w) (map product_of_item dataset_items))"
    and "fst (bulk_create_snapshots wenv (snapshots w)
             (map (snapshot_of_item (current_date wenv)) dataset_items))"
    and "alert_check_service wenv = Some env"
  shows "\<exists>resp. fst (process_successful_webhook wenv dataset_id w) = Some resp \<and>
          alerts_triggered resp =
            Some (fst (check_alerts_for_asins env (batch_asins dataset_items) (alert_table w)))"
    and "alert_table (snd (process_successful_webhook wenv dataset_id w)) =
            snd (check_alerts_for_asins env (batch_asins dataset_items) (alert_table w))"
proof -
  from assms(4) have ne: "dataset_items \<noteq> []" by (auto simp: batch_asins_def)
  from assms(4) have lg: "log_status_update (fst (bulk_update_asin_status (store wenv) tbl
        (batch_asins dataset_items) st ts)) = Inr ()" for tbl st ts
    by (simp add: bulk_update_success_count)
  from assms ne lg
  show "\<exists>resp. fst (process_successful_webhook wenv dataset_id w) = Some resp \<and>
          alerts_triggered resp =
            Some (fst (check_alerts_for_asins env (batch_asins dataset_items) (alert_table w)))"
    by (simp add: process_successful_webhook_def Let_def)
  from assms ne lg
  show "alert_table (snd (process_successful_webhook wenv dataset_id w)) =
            snd (check_alerts_for_asins env (batch_asins dataset_items) (alert_table w))"
    by (simp add: process_successful_webhook_def Let_def)
qed

text \<open>
  Claim C9. An exception inside the evaluation of one identifier is turned into an empty
  alert list for that identifier. The batch evaluation returns an entry for every
  identifier of the batch, and the entry of an identifier is the result of its own
  evaluation, run on the alert table as the identifiers before it left it, whatever
  happened to the others. After a successful ingestion the webhook evaluates the whole
  batch this way: its result carries exactly the entries of the batch evaluation, the
  entry of each identifier being the result of that identifier's own evaluation (the empty
  list when it raised), and the alert table is the one the batch evaluation left.
\<close>

theorem alert_failure_contained:
  "(fst (check_alerts_for_asin_body env a db) = Inl e \<longrightarrow>
      fst (check_alerts_for_asin env a db) = [])
   \<and> (fst (check_alerts_for_asin_body env a db) = Inr found \<longrightarrow>
      fst (check_alerts_for_asin env a db) = found)
   \<and> dom (fst (check_alerts_for_asins env asins db)) = set asins
   \<and> (a \<notin> set post \<longrightarrow>
        fst (check_alerts_for_asins env (pre @ a # post) db) a =
          Some (fst (check_alerts_for_asin env a (snd (check_alerts_for_asins env pre db)))))
   \<and> (truthy dataset_id \<and> collector_available wenv \<and>
      get_parsed_dataset_items wenv (the dataset_id) = Inr dataset_items \<and>
      batch_asins dataset_items = pre @ a # post \<and> a \<notin> set post \<and>
      fst (bulk_update_products wenv (products w) (map product_of_item dataset_items)) \<and>
      fst (bulk_create_snapshots wenv (snapshots w)
             (map (snapshot_of_item (current_date wenv)) dataset_items)) \<and>
      alert_check_service wenv = Some env \<longrightarrow>
      (\<exists>resp results. fst (process_successful_webhook wenv dataset_id w) = Some resp \<and>
          alerts_triggered resp = Some results \<and>
          results = fst (check_alerts_for_asins env (batch_asins dataset_items) (alert_table w)) \<and>
          dom results = set (batch_asins dataset_items) \<and>
          results a =
            Some (fst (check_alerts_for_asin env a
                         (snd (check_alerts_for_asins env pre (alert_table w))))) \<and>
          (fst (check_alerts_for_asin_body env a
                  (snd (check_alerts_for_asins env pre (alert_table w)))) = Inl e \<longrightarrow>
             results a = Some [])) \<and>
      alert_table (snd (process_successful_webhook wenv dataset_id w)) =
        snd (check_alerts_for_asins env (batch_asins dataset_items) (alert_table w)))"
proof (intro conjI impI)
  assume "fst (check_alerts_for_asin_body env a db) = Inl e"
  then show "fst (check_alerts_for_asin env a db) = []"
    by (cases "check_alerts_for_asin_body env a db") (simp add: check_alerts_for_asin_def)
next
  assume "fst (check_alerts_for_asin_body env a db) = Inr found"
  then show "fst (check_alerts_for_asin env a db) = found"
    by (cases "check_alerts_for_asin_body env a db") (simp add: check_alerts_for_asin_def)
next
  show "dom (fst (check_alerts_for_asins env asins db)) = set asins"
    by (simp add: check_alerts_for_asins_def check_alerts_loop_dom)
next
  assume "a \<notin> set post"
  then show "fst (check_alerts_for_asins env (pre @ a # post) db) a =
          Some (fst (check_alerts_for_asin env a (snd (check_alerts_for_asins env pre db))))"
    by (rule check_alerts_entry)
next
  assume h: "truthy dataset_id \<and> collector_available wenv \<and>
      get_parsed_dataset_items wenv (the dataset_id) = Inr dataset_items \<and>
      batch_asins dataset_items = pre @ a # post \<and> a \<notin> set post \<and>
      fst (bulk_update_products wenv (products w) (map product_of_item dataset_items)) \<and>
      fst (bulk_create_snapshots wenv (snapshots w)
             (map (snapshot_of_item (current_date wenv)) dataset_items)) \<and>
      alert_check_service wenv = Some env"
  let ?asins = "batch_asins dataset_items"
  let ?dba = "snd (check_alerts_for_asins env pre (alert_table w))"
  let ?results = "fst (check_alerts_for_asins env ?asins (alert_table w))"
  from h have ne: "?asins \<noteq> []" by simp
  from h ne webhook_alert_results(1) [of dataset_id wenv dataset_items w env]
  obtain resp where resp: "fst (process_successful_webhook wenv dataset_id w) = Some resp"
    "alerts_triggered resp = Some ?results" by blast
  have d: "dom ?results = set ?asins"
    by (simp add: check_alerts_for_asins_def check_alerts_loop_dom)
  from h have entry: "?results a = Some (fst (check_alerts_for_asin env a ?dba))"
    by (simp add: check_alerts_entry)
  have failed: "fst (check_alerts_for_asin_body env a ?dba) = Inl e \<longrightarrow> ?results a = Some []"
  proof
    assume "fst (check_alerts_for_asin_body env a ?dba) = Inl e"
    then have "fst (check_alerts_for_asin env a ?dba) = []"
      by (cases "check_alerts_for_asin_body env a ?dba") (simp add: check_alerts_for_asin_def)
    with entry show "?results a = Some []" by simp
  qed
  from resp d entry failed
  show "\<exists>resp results. fst (process_successful_webhook wenv dataset_id w) = Some resp \<and>
          alerts_triggered resp = Some results \<and>
          results = fst (check_alerts_for_asins env (batch_asins dataset_items) (alert_table w)) \<and>
          dom results = set (batch_asins dataset_items) \<and>
          results a =
            Some (fst (check_alerts_for_asin env a
                         (snd (check_alerts_for_asins env pre (alert_table w))))) \<and>
          (fst (check_alerts_for_asin_body env a
                  (snd (check_alerts_for_asins env pre (alert_table w)))) = Inl e \<longrightarrow>
             results a = Some [])"
    by (intro exI [of _ resp] exI [of _ ?results]) simp
  from h ne webhook_alert_results(2) [of dataset_id wenv dataset_items w env]
  show "alert_table (snd (process_successful_webhook wenv dataset_id w)) =
        snd (check_alerts_for_asins env (batch_asins dataset_items) (alert_table w))"
    by blast
qed

theorem alert_failure_contained_witness:
  "fst (check_alerts_for_asin_body
      \<lparr>get_latest_snapshot = (\<lambda>a. Some
          \<lparr>snap_asin = Some a, snapshot_date = ''2024-01-02'',
           price = Some (if a = ''A'' then 80 else 98), rating = None,
           review_count = None, bsr_data = []\<rparr>),
       get_previous_snapshot = (\<lambda>a d. Some
          \<lparr>snap_asin = Some a, snapshot_date = ''2024-01-01'', price = Some 100,
           rating = None, review_count = None, bsr_data = []\<rparr>),
       get_active_rules =
         [\<lparr>rule_id = Val ''r1'', rule_type = Val ''price_change'',
           change_direction = Val ''decrease'', threshold = Val 1,
           threshold_type = Val ''percentage''\<rparr>,
          \<lparr>rule_id = Absent, rule_type = Val ''price_change'',
           change_direction = Val ''decrease'', threshold = Val 15,
           threshold_type = Val ''percentage''\<rparr>]\<rparr>
      ''A'' \<lparr>alerts = [], accepts = (\<lambda>x. True)\<rparr>) = Inl (KeyError ''id'')
   \<and> fst (check_alerts_for_asins
      \<lparr>get_latest_snapshot = (\<lambda>a. Some
          \<lparr>snap_asin = Some a, snapshot_date = ''2024-01-02'',
           price = Some (if a = ''A'' then 80 else 98), rating = None,
           review_count = None, bsr_data = []\<rparr>),
       get_previous_snapshot = (\<lambda>a d. Some
          \<lparr>snap_asin = Some a, snapshot_date = ''2024-01-01'', price = Some 100,
           rating = None, review_count = None, bsr_data = []\<rparr>),
       get_active_rules =
         [\<lparr>rule_id = Val ''r1'', rule_type = Val ''price_change'',
           change_direction = Val ''decrease'', threshold = Val 1,
           threshold_type = Val ''percentage''\<rparr>,
          \<lparr>rule_id = Absent, rule_type = Val ''price_change'',
           change_direction = Val ''decrease'', threshold = Val 15,
           threshold_type = Val ''percentage''\<rparr>]\<rparr>
      [''A'', ''B''] \<lparr>alerts = [], accepts = (\<lambda>x. True)\<rparr>) ''A'' = Some []
   \<and> fst (check_alerts_for_asins
      \<lparr>get_latest_snapshot = (\<lambda>a. Some
          \<lparr>snap_asin = Some a, snapshot_date = ''2024-01-02'',
           price = Some (if a = ''A'' then 80 else 98), rating = None,
           review_count = None, bsr_data = []\<rparr>),
       get_previous_snapshot = (\<lambda>a d. Some
          \<lparr>snap_asin = Some a, snapshot_date = ''2024-01-01'', price = Some 100,
           rating = None, review_count = None, bsr_data = []\<rparr>),
       get_active_rules =
         [\<lparr>rule_id = Val ''r1'', rule_type = Val ''price_change'',
           change_direction = Val ''decrease'', threshold = Val 1,
           threshold_type = Val ''percentage''\<rparr>,
          \<lparr>rule_id = Absent, rule_type = Val ''price_change'',
           change_direction = Val ''decrease'', threshold = Val 15,
           threshold_type = Val ''percentage''\<rparr>]\<rparr>
      [''A'', ''B''] \<lparr>alerts = [], accepts = (\<lambda>x. True)\<rparr>) ''B'' =
     Some [\<lparr>alert_asin = ''B'', alert_rule_id = Some ''r1'',
            message = PriceMessage (Finite 100) (Finite 98) (Finite (- 2)),
            previous_value = FloatNum (Finite 100), current_value = FloatNum (Finite 98),
            change_percent = Finite (- 2), alert_snapshot_date = ''2024-01-02''\<rparr>]
   \<and> (\<exists>resp results. fst (process_successful_webhook
        \<lparr>collector_available = True,
         get_parsed_dataset_items = (\<lambda>d. Inr
           [\<lparr>item_asin = Some ''A'', item_title = None, item_categories = [],
             item_price = Some 80, item_rating = None, item_review_count = None,
             item_bsr = []\<rparr>,
            \<lparr>item_asin = Some ''B'', item_title = None, item_categories = [],
             item_price = Some 98, item_rating = None, item_review_count = None,
             item_bsr = []\<rparr>]),
         alert_check_service = Some
           \<lparr>get_latest_snapshot = (\<lambda>a. Some
               \<lparr>snap_asin = Some a, snapshot_date = ''2024-01-02'',
                price = Some (if a = ''A'' then 80 else 98), rating = None,
                review_count = None, bsr_data = []\<rparr>),
            get_previous_snapshot = (\<lambda>a d. Some
               \<lparr>snap_asin = Some a, snapshot_date = ''2024-01-01'', price = Some 100,
                rating = None, review_count = None, bsr_data = []\<rparr>),
            get_active_rules =
              [\<lparr>rule_id = Val ''r1'', rule_type = Val ''price_change'',
                change_direction = Val ''decrease'', threshold = Val 1,
                threshold_type = Val ''percentage''\<rparr>,
               \<lparr>rule_id = Absent, rule_type = Val ''price_change'',
                change_direction = Val ''decrease'', threshold = Val 15,
                threshold_type = Val ''percentage''\<rparr>]\<rparr>,
         current_date = ''2024-01-02'',
         store = \<lparr>client_available = True, select_raises = False, upsert_raises = False,
                  row_select_raises = (\<lambda>a. False), row_update_raises = (\<lambda>a. False)\<rparr>,
         products_upsert_raises = False, snapshots_insert_raises = False\<rparr>
        (Some ''ds1'')
        \<lparr>status_table = [], products = [], snapshots = [],
         alert_table = \<lparr>alerts = [], accepts = (\<lambda>x. True)\<rparr>\<rparr>) = Some resp \<and>
        alerts_triggered resp = Some results \<and> dom results = {''A'', ''B''} \<and>
        results ''A'' = Some [] \<and>
        results ''B'' = Some [\<lparr>alert_asin = ''B'', alert_rule_id = Some ''r1'',
            message = PriceMessage (Finite 100) (Finite 98) (Finite (- 2)),
            previous_value = FloatNum (Finite 100), current_value = FloatNum (Finite 98),
            change_percent = Finite (- 2), alert_snapshot_date = ''2024-01-02''\<rparr>])"
proof -
  let ?env = "\<lparr>get_latest_snapshot = (\<lambda>a. Some
          \<lparr>snap_asin = Some a, snapshot_date = ''2024-01-02'',
           price = Some (if a = ''A'' then 80 else (98::real)), rating = None,
           review_count = None, bsr_data = []\<rparr>),
       get_previous_snapshot = (\<lambda>a d. Some
          \<lparr>snap_asin = Some a, snapshot_date = ''2024-01-01'', price = Some (100::real),
           rating = None, review_count = None, bsr_data = []\<rparr>),
       get_active_rules =
         [\<lparr>rule_id = Val ''r1'', rule_type = Val ''price_change'',
           change_direction = Val ''decrease'', threshold = Val (1::real),
           threshold_type = Val ''percentage''\<rparr>,
          \<lparr>rule_id = Absent, rule_type = Val ''price_change'',
           change_direction = Val ''decrease'', threshold = Val 15,
           threshold_type = Val ''percentage''\<rparr>]\<rparr>"
  let ?db = "\<lparr>alerts = [], accepts = (\<lambda>x. True)\<rparr>"
  let ?items = "[\<lparr>item_asin = Some ''A'', item_title = None, item_categories = [],
             item_price = Some (80::real), item_rating = None, item_review_count = None,
             item_bsr = []\<rparr>,
            \<lparr>item_asin = Some ''B'', item_title = None, item_categories = [],
             item_price = Some 98, item_rating = None, item_review_count = None,
             item_bsr = []\<rparr>]"
  let ?wenv = "\<lparr>collector_available = True, get_parsed_dataset_items = (\<lambda>d. Inr ?items),
         alert_check_service = Some ?env, current_date = ''2024-01-02'',
         store = \<lparr>client_available = True, select_raises = False, upsert_raises = False,
                  row_select_raises = (\<lambda>a. False), row_update_raises = (\<lambda>a. False)\<rparr>,
         products_upsert_raises = False, snapshots_insert_raises = False\<rparr>"
  let ?w = "\<lparr>status_table = [], products = [], snapshots = [], alert_table = ?db\<rparr>"
  let ?alertA = "\<lparr>alert_asin = ''A'', alert_rule_id = Some ''r1'',
            message = PriceMessage (Finite 100) (Finite 80) (Finite (- 20)),
            previous_value = FloatNum (Finite 100), current_value = FloatNum (Finite 80),
            change_percent = Finite (- 20), alert_snapshot_date = ''2024-01-02''\<rparr>"
  let ?alertsB = "[\<lparr>alert_asin = ''B'', alert_rule_id = Some ''r1'',
            message = PriceMessage (Finite 100) (Finite 98) (Finite (- 2)),
            previous_value = FloatNum (Finite 100), current_value = FloatNum (Finite 98),
            change_percent = Finite (- 2), alert_snapshot_date = ''2024-01-02''\<rparr>]"
  let ?dbA = "\<lparr>alerts = [?alertA], accepts = (\<lambda>x. True)\<rparr>"
  note trig = should_trigger_alert_float_def should_trigger_alert_def float_threshold_def
  have f98: "float_of_number 98 = Finite 98"
    "price_change_percent (Finite 98) (Finite 100) = Inr (Finite (- 2))"
    "py_round2 (Finite (- 2)) = Finite (- 2)"
    by (simp_all add: price_change_percent_def float_eval)
  have bodyA: "check_alerts_for_asin_body ?env ''A'' ?db = (Inl (KeyError ''id''), ?dbA)"
    by (simp add: check_alerts_for_asin_body_def check_price_alerts_def trig
        rule_subscript_id_def create_alert_record_def price_alert_data_def price_change_80_100
        del: py_round2.simps)
  have oneA: "check_alerts_for_asins ?env [''A''] ?db = ([''A'' \<mapsto> []], ?dbA)"
    by (simp add: check_alerts_for_asins_def check_alerts_for_asin_def bodyA)
  have evalB: "fst (check_alerts_for_asin ?env ''B'' ?dbA) = ?alertsB"
    by (simp add: check_alerts_for_asin_def check_alerts_for_asin_body_def
        check_price_alerts_def check_bsr_alerts_def check_rating_alerts_def trig
        rule_subscript_id_def create_alert_record_def price_alert_data_def
        price_change_80_100 f98 del: py_round2.simps)
  note t1 = alert_failure_contained
     [where env = ?env and a = "''A''" and db = ?db and e = "KeyError ''id''"
        and asins = "[''A'', ''B'']" and pre = "[]" and post = "[''B'']"
        and dataset_id = "Some ''ds1''" and wenv = ?wenv and dataset_items = ?items
        and w = ?w]
  note t2 = alert_failure_contained
     [where env = ?env and a = "''B''" and db = ?db and e = "KeyError ''id''"
        and asins = "[''A'', ''B'']" and pre = "[''A'']" and post = "[]"
        and dataset_id = "Some ''ds1''" and wenv = ?wenv and dataset_items = ?items
        and w = ?w]
  have c0: "fst (check_alerts_for_asin_body ?env ''A'' ?db) = Inl (KeyError ''id'')"
    by (simp add: bodyA)
  from t1 [THEN conjunct1] c0 have emptyA: "fst (check_alerts_for_asin ?env ''A'' ?db) = []"
    by simp
  from t1 [THEN conjunct2, THEN conjunct2, THEN conjunct2, THEN conjunct1]
  have "fst (check_alerts_for_asins ?env ([] @ ''A'' # [''B'']) ?db) ''A'' =
      Some (fst (check_alerts_for_asin ?env ''A'' (snd (check_alerts_for_asins ?env [] ?db))))"
    by simp
  with emptyA have c1: "fst (check_alerts_for_asins ?env [''A'', ''B''] ?db) ''A'' = Some []"
    by (simp add: check_alerts_for_asins_def)
  from t2 [THEN conjunct2, THEN conjunct2, THEN conjunct2, THEN conjunct1]
  have "fst (check_alerts_for_asins ?env ([''A''] @ ''B'' # []) ?db) ''B'' =
      Some (fst (check_alerts_for_asin ?env ''B'' (snd (check_alerts_for_asins ?env [''A''] ?db))))"
    by simp
  with oneA evalB have c2: "fst (check_alerts_for_asins ?env [''A'', ''B''] ?db) ''B'' =
     Some ?alertsB"
    by simp
  have asins: "batch_asins ?items = [''A'', ''B'']" by (simp add: batch_asins_def truthy_def)
  have hyp: "truthy (Some ''ds1'') \<and> collector_available ?wenv \<and>
      get_parsed_dataset_items ?wenv (the (Some ''ds1'')) = Inr ?items \<and>
      batch_asins ?items = [''A''] @ ''B'' # [] \<and> ''B'' \<notin> set [] \<and>
      fst (bulk_update_products ?wenv (products ?w) (map product_of_item ?items)) \<and>
      fst (bulk_create_snapshots ?wenv (snapshots ?w)
             (map (snapshot_of_item (current_date ?wenv)) ?items)) \<and>
      alert_check_service ?wenv = Some ?env"
    by (simp add: asins truthy_def bulk_update_products_def bulk_create_snapshots_def
        product_of_item_def snapshot_of_item_def)
  from t2 [THEN conjunct2, THEN conjunct2, THEN conjunct2, THEN conjunct2, rule_format, OF hyp]
  obtain resp results where
    r: "fst (process_successful_webhook ?wenv (Some ''ds1'') ?w) = Some resp"
       "alerts_triggered resp = Some results"
       "results = fst (check_alerts_for_asins ?env (batch_asins ?items) (alert_table ?w))"
       "dom results = set (batch_asins ?items)"
    by blast
  from r(3) c1 c2 have ra: "results ''A'' = Some []" and rb: "results ''B'' = Some ?alertsB"
    by (simp_all add: asins)
  from r(4) have rd: "dom results = {''A'', ''B''}" by (simp add: asins)
  from r(1,2) rd ra rb
  have c3: "\<exists>resp results. fst (process_successful_webhook ?wenv (Some ''ds1'') ?w) = Some resp \<and>
          alerts_triggered resp = Some results \<and> dom results = {''A'', ''B''} \<and>
          results ''A'' = Some [] \<and> results ''B'' = Some ?alertsB"
    by blast
  from c0 c1 c2 c3 show ?thesis by (intro conjI)
qed

section \<open>Results: the parameters hash and idempotent submission\<close>
















section \<open>Results: the report generation task\<close>

declare run_task.simps [simp del]

lemma write_status_simps [simp]:
  "job_id (write_status now s url msg j) = job_id j"
  "job_status (write_status now s url msg j) = s"
  "error_message (write_status now s url msg j) = (if truthy msg then msg else error_message j)"
  "parameters_hash (write_status now s url msg j) = parameters_hash j"
  "created_at (write_status now s url msg j) = created_at j"
  by (simp_all add: write_status_def)

lemma update_status_jobs:
  "jobs (snd (update_report_job_status r now st jid s url msg)) =
     (case r of Some e \<Rightarrow> jobs st
      | None \<Rightarrow> map (\<lambda>j. if job_id j = jid then write_status now s url msg j else j) (jobs st))"
  by (cases r) (simp_all add: update_report_job_status_def)

lemma update_status_fields:
  assumes "m \<noteq> []"
  shows "\<forall>j\<in>set (jobs (snd (update_report_job_status None now st jid s None (Some m)))).
           job_id j = jid \<longrightarrow> job_status j = s \<and> error_message j = Some m"
proof
  fix j assume "j \<in> set (jobs (snd (update_report_job_status None now st jid s None (Some m))))"
  then obtain j0 where j0: "j0 \<in> set (jobs st)"
      "j = (if job_id j0 = jid then write_status now s None (Some m) j0 else j0)"
    by (auto simp: update_status_jobs)
  show "job_id j = jid \<longrightarrow> job_status j = s \<and> error_message j = Some m"
  proof (cases "job_id j0 = jid")
    case True
    with j0 assms show ?thesis by (simp add: truthy_def)
  next
    case False
    with j0 show ?thesis by simp
  qed
qed

lemma update_status_not_pending:
  assumes "s \<noteq> ''pending''"
    and inv: "\<forall>j\<in>set (jobs st). j \<in> S \<or> job_status j \<noteq> ''pending''"
  shows "\<forall>j\<in>set (jobs (snd (update_report_job_status r now st jid s url m))).
      j \<in> S \<or> job_status j \<noteq> ''pending''"
proof (cases r)
  case (Some e)
  with inv show ?thesis by (simp add: update_status_jobs)
next
  case None
  show ?thesis
  proof
    fix j assume "j \<in> set (jobs (snd (update_report_job_status r now st jid s url m)))"
    with None obtain j0 where j0: "j0 \<in> set (jobs st)"
      "j = (if job_id j0 = jid then write_status now s url m j0 else j0)"
      by (auto simp: update_status_jobs)
    show "j \<in> S \<or> job_status j \<noteq> ''pending''"
    proof (cases "job_id j0 = jid")
      case True
      with j0 assms(1) show ?thesis by simp
    next
      case False
      with j0 inv show ?thesis by simp
    qed
  qed
qed

lemma execute_jobs:
  "jobs (snd (execute_report_generation env k jid st)) = jobs st \<or>
   jobs (snd (execute_report_generation env k jid st)) =
     map (\<lambda>j. if job_id j = jid
              then write_status (attempt_time env k) ''completed'' None None j else j) (jobs st)"
proof -
  let ?st1 = "\<lambda>c. st\<lparr>report_results := report_results st @ [(jid, c)]\<rparr>"
  let ?u = "\<lambda>c. update_report_job_status (update_raises env k AtCompleted) (attempt_time env k)
               (?st1 c) jid ''completed'' None None"
  have uj: "jobs (snd (?u c)) = jobs st \<or>
            jobs (snd (?u c)) = map (\<lambda>j. if job_id j = jid
              then write_status (attempt_time env k) ''completed'' None None j else j) (jobs st)"
    for c
    by (cases "update_raises env k AtCompleted") (simp_all add: update_status_jobs)
  have "snd (execute_report_generation env k jid st) = st \<or>
        (\<exists>c. snd (execute_report_generation env k jid st) = snd (?u c))"
  proof (cases "analysis env k")
    case (Inl e)
    then show ?thesis by (simp add: execute_report_generation_def)
  next
    case (Inr a)
    note an = this
    show ?thesis
    proof (cases "generation env k")
      case (Inl e)
      with an show ?thesis by (simp add: execute_report_generation_def)
    next
      case (Inr c)
      note gen = this
      show ?thesis
      proof (cases "save_raises env k")
        case (Some e)
        with an gen show ?thesis by (simp add: execute_report_generation_def)
      next
        case None
        show ?thesis
        proof (cases "\<not> a \<or> c = []")
          case True
          with an gen None show ?thesis by (auto simp: execute_report_generation_def)
        next
          case False
          obtain x st2 where up: "?u c = (x, st2)" by (rule prod.exhaust)
          have "snd (execute_report_generation env k jid st) = snd (?u c)"
            using an gen None False up
            by (cases x) (simp_all add: execute_report_generation_def)
          then show ?thesis by (intro disjI2 exI)
        qed
      qed
    qed
  qed
  then show ?thesis
  proof
    assume e: "snd (execute_report_generation env k jid st) = st"
    show ?thesis unfolding e by (rule disjI1) (rule refl)
  next
    assume "\<exists>c. snd (execute_report_generation env k jid st) = snd (?u c)"
    then obtain c where e: "snd (execute_report_generation env k jid st) = snd (?u c)" ..
    show ?thesis unfolding e by (rule uj)
  qed
qed


lemma execute_not_pending:
  assumes inv: "\<forall>j\<in>set (jobs st). j \<in> S \<or> job_status j \<noteq> ''pending''"
  shows "\<forall>j\<in>set (jobs (snd (execute_report_generation env k jid st))).
           j \<in> S \<or> job_status j \<noteq> ''pending''"
  using execute_jobs [of env k jid st]
proof
  assume "jobs (snd (execute_report_generation env k jid st)) = jobs st"
  with inv show ?thesis by simp
next
  assume e: "jobs (snd (execute_report_generation env k jid st)) =
     map (\<lambda>j. if job_id j = jid
              then write_status (attempt_time env k) ''completed'' None None j else j) (jobs st)"
  show ?thesis
  proof
    fix j assume "j \<in> set (jobs (snd (execute_report_generation env k jid st)))"
    then obtain j0 where j0: "j0 \<in> set (jobs st)"
      "j = (if job_id j0 = jid
            then write_status (attempt_time env k) ''completed'' None None j0 else j0)"
      unfolding e by auto
    show "j \<in> S \<or> job_status j \<noteq> ''pending''"
    proof (cases "job_id j0 = jid")
      case True
      with j0 show ?thesis by simp
    next
      case False
      with j0 inv show ?thesis by simp
    qed
  qed
qed

lemma attempt_body_state:
  "snd (attempt_body env k jid params st) =
     snd (update_report_job_status (update_raises env k AtStart) (attempt_time env k) st jid
            ''running'' None None)
   \<or> snd (attempt_body env k jid params st) =
     snd (execute_report_generation env k jid
            (snd (update_report_job_status (update_raises env k AtStart) (attempt_time env k)
                    st jid ''running'' None None)))
   \<or> (\<exists>err. snd (attempt_body env k jid params st) =
     snd (update_report_job_status (update_raises env k AtResultFailed) (attempt_time env k)
            (snd (execute_report_generation env k jid
                    (snd (update_report_job_status (update_raises env k AtStart)
                            (attempt_time env k) st jid ''running'' None None))))
            jid ''failed'' None (Some err)))"
proof -
  let ?u1 = "update_report_job_status (update_raises env k AtStart) (attempt_time env k) st jid
               ''running'' None None"
  let ?ex = "execute_report_generation env k jid (snd ?u1)"
  let ?u3 = "\<lambda>err. update_report_job_status (update_raises env k AtResultFailed)
               (attempt_time env k) (snd ?ex) jid ''failed'' None (Some err)"
  obtain a s1 where u1: "?u1 = (a, s1)" by (rule prod.exhaust)
  obtain x s2 where ex: "execute_report_generation env k jid s1 = (x, s2)" by (rule prod.exhaust)
  show ?thesis
  proof (cases a)
    case (Inl e)
    with u1 have "snd (attempt_body env k jid params st) = snd ?u1"
      by (simp add: attempt_body_def)
    then show ?thesis by (rule disjI1)
  next
    case (Inr b)
    note a = this
    show ?thesis
    proof (cases "read_parameters params")
      case (Inl e)
      with u1 a have "snd (attempt_body env k jid params st) = snd ?u1"
        by (simp add: attempt_body_def)
      then show ?thesis by (rule disjI1)
    next
      case (Inr u)
      note rp = this
      show ?thesis
      proof (cases x)
        case ExecSuccess
        with u1 a rp ex have "snd (attempt_body env k jid params st) = snd ?ex"
          by (simp add: attempt_body_def)
        then show ?thesis by (intro disjI2 disjI1)
      next
        case (ExecFailure err)
        obtain c s3 where u3: "update_report_job_status (update_raises env k AtResultFailed)
               (attempt_time env k) s2 jid ''failed'' None (Some err) = (c, s3)"
          by (rule prod.exhaust)
        with ExecFailure u1 a rp ex have "snd (attempt_body env k jid params st) = snd (?u3 err)"
          by (cases c) (simp_all add: attempt_body_def)
        then show ?thesis by (intro disjI2 exI)
      qed
    qed
  qed
qed

lemma attempt_body_not_pending:
  assumes inv: "\<forall>j\<in>set (jobs st). j \<in> S \<or> job_status j \<noteq> ''pending''"
  shows "\<forall>j\<in>set (jobs (snd (attempt_body env k jid params st))).
           j \<in> S \<or> job_status j \<noteq> ''pending''"
proof -
  let ?s1 = "snd (update_report_job_status (update_raises env k AtStart) (attempt_time env k)
                st jid ''running'' None None)"
  let ?s2 = "snd (execute_report_generation env k jid ?s1)"
  have i1: "\<forall>j\<in>set (jobs ?s1). j \<in> S \<or> job_status j \<noteq> ''pending''"
    by (rule update_status_not_pending) (use inv in simp_all)
  have i2: "\<forall>j\<in>set (jobs ?s2). j \<in> S \<or> job_status j \<noteq> ''pending''"
    by (rule execute_not_pending [OF i1])
  have i3: "\<forall>j\<in>set (jobs (snd (update_report_job_status (update_raises env k AtResultFailed)
                (attempt_time env k) ?s2 jid ''failed'' None (Some err)))).
              j \<in> S \<or> job_status j \<noteq> ''pending''" for err
    by (rule update_status_not_pending) (use i2 in simp_all)
  from attempt_body_state [of env k jid params st]
  consider (a) "snd (attempt_body env k jid params st) = ?s1"
    | (b) "snd (attempt_body env k jid params st) = ?s2"
    | (c) err where "snd (attempt_body env k jid params st) =
         snd (update_report_job_status (update_raises env k AtResultFailed)
                (attempt_time env k) ?s2 jid ''failed'' None (Some err))"
    by blast
  then show ?thesis
  proof cases
    case a
    show ?thesis unfolding a by (rule i1)
  next
    case b
    show ?thesis unfolding b by (rule i2)
  next
    case c
    show ?thesis unfolding c by (rule i3)
  qed
qed


lemma attempt_not_pending:
  assumes inv: "\<forall>j\<in>set (jobs st). j \<in> S \<or> job_status j \<noteq> ''pending''"
  shows "\<forall>j\<in>set (jobs (snd (attempt env k jid params st))).
           j \<in> S \<or> job_status j \<noteq> ''pending''"
proof -
  obtain r s1 where body: "attempt_body env k jid params st = (r, s1)" by (rule prod.exhaust)
  have i1: "\<forall>j\<in>set (jobs s1). j \<in> S \<or> job_status j \<noteq> ''pending''"
    using attempt_body_not_pending [OF inv, of env k jid params] body by simp
  show ?thesis
  proof (cases r)
    case (Inr res)
    with body i1 show ?thesis by (simp add: attempt_def)
  next
    case (Inl exc)
    let ?u = "if k < max_retries
              then update_report_job_status (update_raises env k AtRetry) (attempt_time env k)
                     s1 jid ''running'' None (Some (retry_message (k + 1) exc))
              else update_report_job_status (update_raises env k AtExhausted)
                     (attempt_time env k) s1 jid ''failed'' None (Some (exhausted_message exc))"
    have i2: "\<forall>j\<in>set (jobs (snd ?u)). j \<in> S \<or> job_status j \<noteq> ''pending''"
      using update_status_not_pending [OF _ i1, of "''running''"]
        update_status_not_pending [OF _ i1, of "''failed''"]
      by (cases "k < max_retries") simp_all
    have "snd (attempt env k jid params st) = snd ?u"
      using body Inl
      by (cases "k < max_retries")
         (auto simp: attempt_def get_retry_delay_def split: prod.splits sum.splits)
    then show ?thesis using i2 by (simp only:)
  qed
qed

lemma on_failure_not_pending:
  assumes inv: "\<forall>j\<in>set (jobs st). j \<in> S \<or> job_status j \<noteq> ''pending''"
  shows "\<forall>j\<in>set (jobs (on_failure env k st exc)). j \<in> S \<or> job_status j \<noteq> ''pending''"
  unfolding on_failure_def by (rule update_status_not_pending) (use inv in simp_all)

lemma run_task_not_pending:
  "\<forall>j\<in>set (jobs st). j \<in> S \<or> job_status j \<noteq> ''pending'' \<Longrightarrow>
   \<forall>j\<in>set (jobs (snd (run_task env jid params st k))). j \<in> S \<or> job_status j \<noteq> ''pending''"
proof (induction env jid params st k rule: run_task.induct)
  case (1 env jid params st k)
  obtain out st1 where at: "attempt env k jid params st = (out, st1)" by (rule prod.exhaust)
  have i1: "\<forall>j\<in>set (jobs st1). j \<in> S \<or> job_status j \<noteq> ''pending''"
    using attempt_not_pending [OF "1.prems", of env k jid params] at by simp
  show ?case
  proof (cases out)
    case (Returned res)
    with at i1 show ?thesis by (simp add: run_task.simps [of env jid params st k])
  next
    case (Raised e)
    with at on_failure_not_pending [OF i1] show ?thesis
      by (simp add: run_task.simps [of env jid params st k])
  next
    case (RetryRequested exc cd)
    show ?thesis
    proof (cases "k < max_retries")
      case True
      from "1.IH" [OF at [symmetric] RetryRequested True i1] at RetryRequested True
      show ?thesis by (simp add: run_task.simps [of env jid params st k])
    next
      case False
      with at RetryRequested on_failure_not_pending [OF i1] show ?thesis
        by (simp add: run_task.simps [of env jid params st k])
    qed
  qed
qed


lemma attempt_no_retry:
  assumes body: "fst (attempt_body env k jid params st) = Inl exc"
    and store: "update_raises env k AtRetry = None"
    and k: "k < max_retries"
  shows "fst (attempt env k jid params st) = Raised no_retry_delay"
    and "\<forall>j\<in>set (jobs (snd (attempt env k jid params st))). job_id j = jid \<longrightarrow>
           job_status j = ''running'' \<and> error_message j = Some (retry_message (k + 1) exc)"
proof -
  obtain s1 where b: "attempt_body env k jid params st = (Inl exc, s1)"
    using body by (cases "attempt_body env k jid params st") simp
  let ?u = "update_report_job_status None (attempt_time env k) s1 jid ''running'' None
              (Some (retry_message (k + 1) exc))"
  have at: "attempt env k jid params st = (Raised no_retry_delay, snd ?u)"
    using b store k
    by (simp add: attempt_def update_report_job_status_def get_retry_delay_def)
  show "fst (attempt env k jid params st) = Raised no_retry_delay" by (simp add: at)
  have "retry_message (k + 1) exc \<noteq> []" by (simp add: retry_message_def)
  from update_status_fields [OF this, of "attempt_time env k" s1 jid "''running''"]
  show "\<forall>j\<in>set (jobs (snd (attempt env k jid params st))). job_id j = jid \<longrightarrow>
           job_status j = ''running'' \<and> error_message j = Some (retry_message (k + 1) exc)"
    by (simp only: at snd_conv)
qed

lemma attempt_never_requests_retry:
  "fst (attempt env k jid params st) \<noteq> RetryRequested exc d"
  by (auto simp: attempt_def get_retry_delay_def split: prod.splits sum.splits)

lemma run_task_retries:
  "snd (fst (run_task env jid params st k)) = k"
proof -
  obtain out s1 where at: "attempt env k jid params st = (out, s1)" by (rule prod.exhaust)
  show ?thesis
  proof (cases out)
    case (Returned res)
    with at show ?thesis by (simp add: run_task.simps [of env jid params st k])
  next
    case (Raised e)
    with at show ?thesis by (simp add: run_task.simps [of env jid params st k])
  next
    case (RetryRequested exc d)
    with at attempt_never_requests_retry [of env k jid params st exc d] show ?thesis by simp
  qed
qed

lemma on_failure_other_job:
  assumes other: "celery_task_id env \<noteq> jid"
    and inv: "\<forall>j\<in>set (jobs st). job_id j = jid \<longrightarrow> P j"
  shows "\<forall>j\<in>set (jobs (on_failure env k st exc)). job_id j = jid \<longrightarrow> P j"
proof
  fix j assume j: "j \<in> set (jobs (on_failure env k st exc))"
  show "job_id j = jid \<longrightarrow> P j"
  proof (cases "update_raises env k AtOnFailure")
    case (Some e)
    with j inv show ?thesis by (simp add: on_failure_def update_status_jobs)
  next
    case None
    with j obtain j0 where j0: "j0 \<in> set (jobs st)"
      "j = (if job_id j0 = celery_task_id env
            then write_status (attempt_time env k) ''failed'' None (Some (str_exc exc)) j0
            else j0)"
      by (auto simp: on_failure_def update_status_jobs)
    show ?thesis
    proof (cases "job_id j0 = celery_task_id env")
      case True
      with j0 other show ?thesis by simp
    next
      case False
      with j0 inv show ?thesis by simp
    qed
  qed
qed

lemma run_task_no_retry:
  assumes body: "fst (attempt_body env k jid params st) = Inl exc"
    and store: "update_raises env k AtRetry = None"
    and k: "k < max_retries"
    and other: "celery_task_id env \<noteq> jid"
  shows "fst (run_task env jid params st k) = (Failed no_retry_delay, k)"
    and "\<forall>j\<in>set (jobs (snd (run_task env jid params st k))). job_id j = jid \<longrightarrow>
           job_status j = ''running'' \<and> error_message j = Some (retry_message (k + 1) exc)"
proof -
  obtain out s1 where at: "attempt env k jid params st = (out, s1)" by (rule prod.exhaust)
  from attempt_no_retry [OF body store k] at
  have o: "out = Raised no_retry_delay"
    and j: "\<forall>j\<in>set (jobs s1). job_id j = jid \<longrightarrow>
           job_status j = ''running'' \<and> error_message j = Some (retry_message (k + 1) exc)"
    by simp_all
  from at o have run: "run_task env jid params st k =
      ((Failed no_retry_delay, k), on_failure env k s1 no_retry_delay)"
    by (simp add: run_task.simps [of env jid params st k])
  show "fst (run_task env jid params st k) = (Failed no_retry_delay, k)" by (simp add: run)
  from on_failure_other_job [OF other, of s1
      "\<lambda>j. job_status j = ''running'' \<and> error_message j = Some (retry_message (k + 1) exc)",
      OF j]
  show "\<forall>j\<in>set (jobs (snd (run_task env jid params st k))). job_id j = jid \<longrightarrow>
           job_status j = ''running'' \<and> error_message j = Some (retry_message (k + 1) exc)"
    by (simp only: run snd_conv)
qed

lemma execute_failure:
  assumes "analysis env k = Inl e
     \<or> (analysis env k = Inr True \<and> generation env k = Inl e)
     \<or> (analysis env k = Inr True \<and> (\<exists>c. generation env k = Inr c \<and> c \<noteq> []) \<and>
        save_raises env k = Some e)
     \<or> (analysis env k = Inr True \<and> (\<exists>c. generation env k = Inr c \<and> c \<noteq> []) \<and>
        save_raises env k = None \<and> update_raises env k AtCompleted = Some e)"
  shows "fst (execute_report_generation env k jid st) = ExecFailure (logic_failed e)"
    and "jobs (snd (execute_report_generation env k jid st)) = jobs st"
  using assms
  by (auto simp: execute_report_generation_def update_report_job_status_def)

lemma attempt_generation_failure:
  assumes s1: "update_raises env k AtStart = None"
    and s2: "update_raises env k AtResultFailed = None"
    and rp: "read_parameters params = Inr ()"
    and an: "analysis env k = Inl e
     \<or> (analysis env k = Inr True \<and> generation env k = Inl e)
     \<or> (analysis env k = Inr True \<and> (\<exists>c. generation env k = Inr c \<and> c \<noteq> []) \<and>
        save_raises env k = Some e)
     \<or> (analysis env k = Inr True \<and> (\<exists>c. generation env k = Inr c \<and> c \<noteq> []) \<and>
        save_raises env k = None \<and> update_raises env k AtCompleted = Some e)"
  shows "fst (attempt env k jid params st) = Returned (TaskFailure (logic_failed e))"
    and "\<forall>j\<in>set (jobs (snd (attempt env k jid params st))). job_id j = jid \<longrightarrow>
           job_status j = ''failed'' \<and> error_message j = Some (logic_failed e)"
proof -
  let ?st1 = "snd (update_report_job_status None (attempt_time env k) st jid ''running''
                     None None)"
  obtain x st2 where ex: "execute_report_generation env k jid ?st1 = (x, st2)"
    by (rule prod.exhaust)
  from execute_failure [OF an, of jid ?st1] ex
  have x: "x = ExecFailure (logic_failed e)" by simp
  let ?u = "update_report_job_status None (attempt_time env k) st2 jid ''failed'' None
              (Some (logic_failed e))"
  have body: "attempt_body env k jid params st = (Inr (TaskFailure (logic_failed e)), snd ?u)"
    using s1 s2 rp ex x
    by (simp add: attempt_body_def update_report_job_status_def)
  then have at: "attempt env k jid params st = (Returned (TaskFailure (logic_failed e)), snd ?u)"
    by (simp add: attempt_def)
  show "fst (attempt env k jid params st) = Returned (TaskFailure (logic_failed e))"
    by (simp add: at)
  have "logic_failed e \<noteq> []" by (simp add: logic_failed_def)
  from update_status_fields [OF this, of "attempt_time env k" st2 jid "''failed''"]
  show "\<forall>j\<in>set (jobs (snd (attempt env k jid params st))). job_id j = jid \<longrightarrow>
           job_status j = ''failed'' \<and> error_message j = Some (logic_failed e)"
    by (simp only: at snd_conv)
qed

text \<open>
  Claim C8. The task does not carry out its retry policy. When an exception leaves the body
  of an attempt and the retry count is below 3, the handler writes the job running with
  an error message carrying the attempt counter and the exception's text, and then the
  call \<open>self.get_retry_delay()\<close> raises \<open>AttributeError\<close>: the attempt ends with that
  exception instead of a retry, no run of the task ever makes a retry, and the job (whose
  id is not the id of the queue's task, which is what \<open>on_failure\<close> writes) stays running
  and is never written failed. An exception raised inside report generation (analysis,
  generation, saving the result, the final status write) is caught there and the job is
  written failed at once. No run of the task writes the status pending.
\<close>

theorem report_task_never_retries:
  "snd (fst (run_task env jid params st k)) = k
   \<and> (fst (attempt_body env k jid params st) = Inl exc \<and>
      update_raises env k AtRetry = None \<and> k < 3 \<longrightarrow>
      fst (attempt env k jid params st) = Raised no_retry_delay \<and>
      (\<forall>j\<in>set (jobs (snd (attempt env k jid params st))). job_id j = jid \<longrightarrow>
          job_status j = ''running'' \<and>
          error_message j =
            Some (''Task retrying (attempt '' @ show_nat (k + 1) @ ''): '' @ str_exc exc)))
   \<and> (fst (attempt_body env k jid params st) = Inl exc \<and>
      update_raises env k AtRetry = None \<and> k < 3 \<and> celery_task_id env \<noteq> jid \<longrightarrow>
      fst (run_task env jid params st k) = (Failed no_retry_delay, k) \<and>
      (\<forall>j\<in>set (jobs (snd (run_task env jid params st k))). job_id j = jid \<longrightarrow>
          job_status j = ''running'' \<and>
          error_message j =
            Some (''Task retrying (attempt '' @ show_nat (k + 1) @ ''): '' @ str_exc exc)))
   \<and> (update_raises env k AtStart = None \<and> update_raises env k AtResultFailed = None \<and>
      read_parameters params = Inr () \<and>
      (analysis env k = Inl e
       \<or> (analysis env k = Inr True \<and> generation env k = Inl e)
       \<or> (analysis env k = Inr True \<and> (\<exists>c. generation env k = Inr c \<and> c \<noteq> []) \<and>
          save_raises env k = Some e)
       \<or> (analysis env k = Inr True \<and> (\<exists>c. generation env k = Inr c \<and> c \<noteq> []) \<and>
          save_raises env k = None \<and> update_raises env k AtCompleted = Some e)) \<longrightarrow>
      fst (attempt env k jid params st) =
        Returned (TaskFailure (''Report generation logic failed: '' @ str_exc e)) \<and>
      (\<forall>j\<in>set (jobs (snd (attempt env k jid params st))). job_id j = jid \<longrightarrow>
          job_status j = ''failed'' \<and>
          error_message j = Some (''Report generation logic failed: '' @ str_exc e)))
   \<and> (\<forall>j\<in>set (jobs (snd (run_task env jid params st k))).
        j \<in> set (jobs st) \<or> job_status j \<noteq> ''pending'')"
proof (intro conjI impI)
  show "snd (fst (run_task env jid params st k)) = k" by (rule run_task_retries)
next
  assume h: "fst (attempt_body env k jid params st) = Inl exc \<and>
      update_raises env k AtRetry = None \<and> k < 3"
  then show "fst (attempt env k jid params st) = Raised no_retry_delay"
    using attempt_no_retry(1) [of env k jid params st exc] by (simp add: max_retries_def)
  from h show "\<forall>j\<in>set (jobs (snd (attempt env k jid params st))). job_id j = jid \<longrightarrow>
          job_status j = ''running'' \<and>
          error_message j =
            Some (''Task retrying (attempt '' @ show_nat (k + 1) @ ''): '' @ str_exc exc)"
    using attempt_no_retry(2) [of env k jid params st exc]
    by (simp add: max_retries_def retry_message_def del: show_nat.simps)
next
  assume h: "fst (attempt_body env k jid params st) = Inl exc \<and>
      update_raises env k AtRetry = None \<and> k < 3 \<and> celery_task_id env \<noteq> jid"
  then show "fst (run_task env jid params st k) = (Failed no_retry_delay, k)"
    using run_task_no_retry(1) [of env k jid params st exc] by (simp add: max_retries_def)
  from h show "\<forall>j\<in>set (jobs (snd (run_task env jid params st k))). job_id j = jid \<longrightarrow>
          job_status j = ''running'' \<and>
          error_message j =
            Some (''Task retrying (attempt '' @ show_nat (k + 1) @ ''): '' @ str_exc exc)"
    using run_task_no_retry(2) [of env k jid params st exc]
    by (simp add: max_retries_def retry_message_def del: show_nat.simps)
next
  assume h: "update_raises env k AtStart = None \<and> update_raises env k AtResultFailed = None \<and>
      read_parameters params = Inr () \<and>
      (analysis env k = Inl e
       \<or> (analysis env k = Inr True \<and> generation env k = Inl e)
       \<or> (analysis env k = Inr True \<and> (\<exists>c. generation env k = Inr c \<and> c \<noteq> []) \<and>
          save_raises env k = Some e)
       \<or> (analysis env k = Inr True \<and> (\<exists>c. generation env k = Inr c \<and> c \<noteq> []) \<and>
          save_raises env k = None \<and> update_raises env k AtCompleted = Some e))"
  then have s1: "update_raises env k AtStart = None"
    and s2: "update_raises env k AtResultFailed = None"
    and rp: "read_parameters params = Inr ()"
    and an: "analysis env k = Inl e
       \<or> (analysis env k = Inr True \<and> generation env k = Inl e)
       \<or> (analysis env k = Inr True \<and> (\<exists>c. generation env k = Inr c \<and> c \<noteq> []) \<and>
          save_raises env k = Some e)
       \<or> (analysis env k = Inr True \<and> (\<exists>c. generation env k = Inr c \<and> c \<noteq> []) \<and>
          save_raises env k = None \<and> update_raises env k AtCompleted = Some e)"
    by simp_all
  from attempt_generation_failure(1) [OF s1 s2 rp an]
  show "fst (attempt env k jid params st) =
        Returned (TaskFailure (''Report generation logic failed: '' @ str_exc e))"
    by (simp add: logic_failed_def)
  from attempt_generation_failure(2) [OF s1 s2 rp an]
  show "\<forall>j\<in>set (jobs (snd (attempt env k jid params st))). job_id j = jid \<longrightarrow>
          job_status j = ''failed'' \<and>
          error_message j = Some (''Report generation logic failed: '' @ str_exc e)"
    by (simp add: logic_failed_def)
next
  show "\<forall>j\<in>set (jobs (snd (run_task env jid params st k))).
        j \<in> set (jobs st) \<or> job_status j \<noteq> ''pending''"
    by (rule run_task_not_pending) simp
qed

theorem report_task_never_retries_witness:
  "fst (run_task
      \<lparr>update_raises = (\<lambda>k s. None), analysis = (\<lambda>k. Inl (RuntimeError ''boom'')),
       generation = (\<lambda>k. Inr ''report''), save_raises = (\<lambda>k. None),
       attempt_time = (\<lambda>k. 100), celery_task_id = ''celery-1''\<rparr>
      ''j1'' []
      \<lparr>jobs = [\<lparr>job_id = ''j1'', job_type = ''competitor_analysis'', job_parameters = JNull,
                 parameters_hash = ''h'', job_status = ''pending'', result_url = None,
                 error_message = None, created_at = 50, started_at = None,
                 completed_at = None\<rparr>],
       report_results = [], report_queue = []\<rparr> 0)
     = (Failed no_retry_delay, 0)
   \<and> map job_status (jobs (snd (run_task
      \<lparr>update_raises = (\<lambda>k s. None), analysis = (\<lambda>k. Inl (RuntimeError ''boom'')),
       generation = (\<lambda>k. Inr ''report''), save_raises = (\<lambda>k. None),
       attempt_time = (\<lambda>k. 100), celery_task_id = ''celery-1''\<rparr>
      ''j1'' []
      \<lparr>jobs = [\<lparr>job_id = ''j1'', job_type = ''competitor_analysis'', job_parameters = JNull,
                 parameters_hash = ''h'', job_status = ''pending'', result_url = None,
                 error_message = None, created_at = 50, started_at = None,
                 completed_at = None\<rparr>],
       report_results = [], report_queue = []\<rparr> 0))) = [''running'']
   \<and> map error_message (jobs (snd (run_task
      \<lparr>update_raises = (\<lambda>k s. None), analysis = (\<lambda>k. Inl (RuntimeError ''boom'')),
       generation = (\<lambda>k. Inr ''report''), save_raises = (\<lambda>k. None),
       attempt_time = (\<lambda>k. 100), celery_task_id = ''celery-1''\<rparr>
      ''j1'' []
      \<lparr>jobs = [\<lparr>job_id = ''j1'', job_type = ''competitor_analysis'', job_parameters = JNull,
                 parameters_hash = ''h'', job_status = ''pending'', result_url = None,
                 error_message = None, created_at = 50, started_at = None,
                 completed_at = None\<rparr>],
       report_results = [], report_queue = []\<rparr> 0)))
     = [Some (''Task retrying (attempt 1): '' @ str_exc (KeyError ''main_asin''))]
   \<and> fst (attempt
      \<lparr>update_raises = (\<lambda>k s. None), analysis = (\<lambda>k. Inl (RuntimeError ''boom'')),
       generation = (\<lambda>k. Inr ''report''), save_raises = (\<lambda>k. None),
       attempt_time = (\<lambda>k. 100), celery_task_id = ''celery-1''\<rparr>
      0 ''j1''
      [(''main_asin'', JStr ''B01''), (''competitor_asins'', JList [JStr ''B02'']),
       (''window_size'', JInt 7), (''report_type'', JStr ''competitor_analysis'')]
      \<lparr>jobs = [\<lparr>job_id = ''j1'', job_type = ''competitor_analysis'', job_parameters = JNull,
                 parameters_hash = ''h'', job_status = ''pending'', result_url = None,
                 error_message = None, created_at = 50, started_at = None,
                 completed_at = None\<rparr>],
       report_results = [], report_queue = []\<rparr>)
     = Returned (TaskFailure ''Report generation logic failed: boom'')
   \<and> map job_status (jobs (snd (attempt
      \<lparr>update_raises = (\<lambda>k s. None), analysis = (\<lambda>k. Inl (RuntimeError ''boom'')),
       generation = (\<lambda>k. Inr ''report''), save_raises = (\<lambda>k. None),
       attempt_time = (\<lambda>k. 100), celery_task_id = ''celery-1''\<rparr>
      0 ''j1''
      [(''main_asin'', JStr ''B01''), (''competitor_asins'', JList [JStr ''B02'']),
       (''window_size'', JInt 7), (''report_type'', JStr ''competitor_analysis'')]
      \<lparr>jobs = [\<lparr>job_id = ''j1'', job_type = ''competitor_analysis'', job_parameters = JNull,
                 parameters_hash = ''h'', job_status = ''pending'', result_url = None,
                 error_message = None, created_at = 50, started_at = None,
                 completed_at = None\<rparr>],
       report_results = [], report_queue = []\<rparr>))) = [''failed'']"
proof -
  let ?env = "\<lparr>update_raises = (\<lambda>k s. None), analysis = (\<lambda>k. Inl (RuntimeError ''boom'')),
       generation = (\<lambda>k. Inr ''report''), save_raises = (\<lambda>k. None),
       attempt_time = (\<lambda>k. 100), celery_task_id = ''celery-1''\<rparr>"
  let ?params = "[(''main_asin'', JStr ''B01''), (''competitor_asins'', JList [JStr ''B02'']),
       (''window_size'', JInt 7), (''report_type'', JStr ''competitor_analysis'')]"
  let ?st = "\<lparr>jobs = [\<lparr>job_id = ''j1'', job_type = ''competitor_analysis'', job_parameters = JNull,
                 parameters_hash = ''h'', job_status = ''pending'', result_url = None,
                 error_message = None, created_at = 50, started_at = None,
                 completed_at = None\<rparr>],
       report_results = [], report_queue = []\<rparr>"
  have body: "fst (attempt_body ?env 0 ''j1'' [] ?st) = Inl (KeyError ''main_asin'')"
    by (simp add: attempt_body_def update_report_job_status_def read_parameters_def
        subscript_def)
  have h3: "fst (attempt_body ?env 0 ''j1'' [] ?st) = Inl (KeyError ''main_asin'') \<and>
      update_raises ?env 0 AtRetry = None \<and> (0::nat) < 3 \<and> celery_task_id ?env \<noteq> ''j1''"
    using body by simp
  have h4: "update_raises ?env 0 AtStart = None \<and> update_raises ?env 0 AtResultFailed = None \<and>
      read_parameters ?params = Inr () \<and>
      (analysis ?env 0 = Inl (RuntimeError ''boom'')
       \<or> (analysis ?env 0 = Inr True \<and> generation ?env 0 = Inl (RuntimeError ''boom''))
       \<or> (analysis ?env 0 = Inr True \<and> (\<exists>c. generation ?env 0 = Inr c \<and> c \<noteq> []) \<and>
          save_raises ?env 0 = Some (RuntimeError ''boom''))
       \<or> (analysis ?env 0 = Inr True \<and> (\<exists>c. generation ?env 0 = Inr c \<and> c \<noteq> []) \<and>
          save_raises ?env 0 = None \<and>
          update_raises ?env 0 AtCompleted = Some (RuntimeError ''boom'')))"
    by (simp add: read_parameters_def subscript_def)
  note t3 = report_task_never_retries
     [where env = ?env and k = 0 and params = "[]" and exc = "KeyError ''main_asin''"
        and jid = "''j1''" and st = ?st,
      THEN conjunct2, THEN conjunct2, THEN conjunct1, rule_format, OF h3]
  note t4 = report_task_never_retries
     [where env = ?env and k = 0 and params = ?params and e = "RuntimeError ''boom''"
        and jid = "''j1''" and st = ?st,
      THEN conjunct2, THEN conjunct2, THEN conjunct2, THEN conjunct1, rule_format, OF h4]
  have c1: "fst (run_task ?env ''j1'' [] ?st 0) = (Failed no_retry_delay, 0)"
    using t3 [THEN conjunct1] .
  have ids: "map job_id (jobs (snd (run_task ?env ''j1'' [] ?st 0))) = [''j1'']"
    by (simp add: run_task.simps attempt_def attempt_body_def read_parameters_def
        subscript_def update_report_job_status_def max_retries_def get_retry_delay_def
        on_failure_def)
  then obtain j where j: "jobs (snd (run_task ?env ''j1'' [] ?st 0)) = [j]" "job_id j = ''j1''"
    by (auto simp: map_eq_Cons_conv)
  from t3 [THEN conjunct2] j
  have c2: "map job_status (jobs (snd (run_task ?env ''j1'' [] ?st 0))) = [''running'']"
    by simp
  have one: "show_nat 1 = ''1''" "show_nat (Suc 0) = ''1''" by code_simp+
  from t3 [THEN conjunct2] j
  have c3: "map error_message (jobs (snd (run_task ?env ''j1'' [] ?st 0)))
     = [Some (''Task retrying (attempt 1): '' @ str_exc (KeyError ''main_asin''))]"
    by (simp add: one del: show_nat.simps)
  have c4: "fst (attempt ?env 0 ''j1'' ?params ?st) =
      Returned (TaskFailure ''Report generation logic failed: boom'')"
    using t4 [THEN conjunct1] by simp
  have ids2: "map job_id (jobs (snd (attempt ?env 0 ''j1'' ?params ?st))) = [''j1'']"
    by (simp add: attempt_def attempt_body_def read_parameters_def subscript_def
        update_report_job_status_def execute_report_generation_def)
  then obtain j2 where j2: "jobs (snd (attempt ?env 0 ''j1'' ?params ?st)) = [j2]"
      "job_id j2 = ''j1''"
    by (auto simp: map_eq_Cons_conv)
  from t4 [THEN conjunct2] j2
  have c5: "map job_status (jobs (snd (attempt ?env 0 ''j1'' ?params ?st))) = [''failed'']"
    by simp
  from c1 c2 c3 c4 c5 show ?thesis by (intro conjI)
qed

end
